theory Spec2Isabelle
  imports Complex_Main
begin

section \<open>Go strings: bytes and runes\<close>

text \<open>
  A Go \<^verbatim>\<open>string\<close> is a sequence of bytes, which is what a HOL \<^typ>\<open>string\<close> is
  (a list of 8-bit characters). The packages \<^verbatim>\<open>strings\<close>, \<^verbatim>\<open>unicode\<close> and
  \<^verbatim>\<open>regexp\<close> read such a string as UTF-8: \<^verbatim>\<open>utf8.DecodeRuneInString\<close> yields a code
  point and a width, and a byte that starts no valid encoding is the rune U+FFFD of
  width 1. The definitions below follow the Go standard library, for the part of it
  that the program calls.
\<close>

type_synonym rune = nat

text \<open>A decoded rune together with the bytes it was read from.\<close>

type_synonym chunk = "rune \<times> string"

definition RuneError :: rune where
  "RuneError = 0xFFFD"

definition byte :: "char \<Rightarrow> nat" where
  "byte c = of_char c"

definition inrange :: "nat \<Rightarrow> nat \<Rightarrow> char \<Rightarrow> bool" where
  "inrange lo hi c = (lo \<le> byte c \<and> byte c \<le> hi)"

text \<open>
  \<^verbatim>\<open>utf8.DecodeRuneInString\<close>: the leading byte fixes the width and the range accepted
  for the second byte (E0, ED, F0 and F4 narrow it, which excludes overlong forms,
  surrogates and code points above U+10FFFF); every failure is \<open>(RuneError, 1)\<close>.
\<close>

fun DecodeRune :: "string \<Rightarrow> rune \<times> nat" where
  "DecodeRune [] = (RuneError, 0)"
| "DecodeRune (c0 # cs) =
    (if byte c0 < 0x80 then (byte c0, 1)
     else if byte c0 < 0xC2 \<or> 0xF4 < byte c0 then (RuneError, 1)
     else if byte c0 < 0xE0 then
       (case cs of
          c1 # _ \<Rightarrow>
            if inrange 0x80 0xBF c1
            then ((byte c0 - 0xC0) * 0x40 + (byte c1 - 0x80), 2)
            else (RuneError, 1)
        | [] \<Rightarrow> (RuneError, 1))
     else if byte c0 < 0xF0 then
       (case cs of
          c1 # c2 # _ \<Rightarrow>
            if inrange (if byte c0 = 0xE0 then 0xA0 else 0x80)
                       (if byte c0 = 0xED then 0x9F else 0xBF) c1 \<and>
               inrange 0x80 0xBF c2
            then (((byte c0 - 0xE0) * 0x40 + (byte c1 - 0x80)) * 0x40 + (byte c2 - 0x80), 3)
            else (RuneError, 1)
        | _ \<Rightarrow> (RuneError, 1))
     else
       (case cs of
          c1 # c2 # c3 # _ \<Rightarrow>
            if inrange (if byte c0 = 0xF0 then 0x90 else 0x80)
                       (if byte c0 = 0xF4 then 0x8F else 0xBF) c1 \<and>
               inrange 0x80 0xBF c2 \<and> inrange 0x80 0xBF c3
            then ((((byte c0 - 0xF0) * 0x40 + (byte c1 - 0x80)) * 0x40 + (byte c2 - 0x80)) * 0x40
                    + (byte c3 - 0x80), 4)
            else (RuneError, 1)
        | _ \<Rightarrow> (RuneError, 1)))"

declare DecodeRune.simps [simp del]

text \<open>
  The runes of a string in order, as a \<^verbatim>\<open>for range\<close> loop or the regexp engine reads
  them; the bytes of the chunks concatenate to the string.
\<close>

fun runes :: "string \<Rightarrow> chunk list" where
  "runes [] = []"
| "runes (c # cs) =
     (fst (DecodeRune (c # cs)), take (snd (DecodeRune (c # cs))) (c # cs))
       # runes (drop (snd (DecodeRune (c # cs)) - 1) cs)"

declare runes.simps(2) [simp del]

definition unchunk :: "chunk list \<Rightarrow> string" where
  "unchunk xs = concat (map snd xs)"

text \<open>
  \<^verbatim>\<open>utf8.AppendRune\<close>: a surrogate or a value above U+10FFFF is written as U+FFFD.
\<close>

definition EncodeRune :: "rune \<Rightarrow> string" where
  "EncodeRune r =
    (if r \<le> 0x7F then [char_of r]
     else if r \<le> 0x7FF then [char_of (0xC0 + r div 0x40), char_of (0x80 + r mod 0x40)]
     else if 0x10FFFF < r \<or> (0xD800 \<le> r \<and> r \<le> 0xDFFF)
       then [char_of (0xEF :: nat), char_of (0xBF :: nat), char_of (0xBD :: nat)]
     else if r \<le> 0xFFFF
       then [char_of (0xE0 + r div 0x1000), char_of (0x80 + (r div 0x40) mod 0x40),
             char_of (0x80 + r mod 0x40)]
     else [char_of (0xF0 + r div 0x40000), char_of (0x80 + (r div 0x1000) mod 0x40),
           char_of (0x80 + (r div 0x40) mod 0x40), char_of (0x80 + r mod 0x40)])"

text \<open>
  \<^verbatim>\<open>utf8.DecodeLastRuneInString\<close>: step back over at most three continuation bytes
  to a byte that can start a rune, decode from there, and accept the rune only if it
  ends exactly at the end of the string.
\<close>

definition RuneStart :: "char \<Rightarrow> bool" where
  "RuneStart c = (\<not> inrange 0x80 0xBF c)"

fun back_start :: "string \<Rightarrow> int \<Rightarrow> nat \<Rightarrow> int \<Rightarrow> int" where
  "back_start s lowest 0 start = start"
| "back_start s lowest (Suc fuel) start =
     (if start < lowest then start
      else if RuneStart (s ! nat start) then start
      else back_start s lowest fuel (start - 1))"

definition DecodeLastRune :: "string \<Rightarrow> rune \<times> nat" where
  "DecodeLastRune s =
    (if s = [] then (RuneError, 0)
     else if byte (last s) < 0x80 then (byte (last s), 1)
     else
       (let end = int (length s);
            lowest = max 0 (end - 4);
            start = max 0 (back_start s lowest 4 (end - 2));
            d = DecodeRune (drop (nat start) s)
        in if start + int (snd d) \<noteq> end then (RuneError, 1) else d))"

text \<open>\<^verbatim>\<open>unicode.IsSpace\<close>: the Latin-1 cases and the White_Space table.\<close>

definition IsSpace :: "rune \<Rightarrow> bool" where
  "IsSpace r =
    ((0x09 \<le> r \<and> r \<le> 0x0D) \<or> r = 0x20 \<or> r = 0x85 \<or> r = 0xA0 \<or> r = 0x1680 \<or>
     (0x2000 \<le> r \<and> r \<le> 0x200A) \<or> r = 0x2028 \<or> r = 0x2029 \<or> r = 0x202F \<or>
     r = 0x205F \<or> r = 0x3000)"

text \<open>
  \<^verbatim>\<open>strings.TrimSpace\<close> is \<^verbatim>\<open>TrimFunc(s, unicode.IsSpace)\<close>: the leading white-space
  runes are dropped reading forwards, the trailing ones reading backwards with
  \<^verbatim>\<open>DecodeLastRuneInString\<close>. The backward loop drops at least one byte in each turn,
  so as many turns as the string has bytes are enough.
\<close>

definition TrimLeftSpace :: "string \<Rightarrow> string" where
  "TrimLeftSpace s = unchunk (dropWhile (\<lambda>x. IsSpace (fst x)) (runes s))"

fun TrimRightSpace_fuel :: "nat \<Rightarrow> string \<Rightarrow> string" where
  "TrimRightSpace_fuel 0 s = s"
| "TrimRightSpace_fuel (Suc n) s =
     (if s = [] then []
      else if IsSpace (fst (DecodeLastRune s))
        then TrimRightSpace_fuel n (take (length s - snd (DecodeLastRune s)) s)
      else s)"

definition TrimRightSpace :: "string \<Rightarrow> string" where
  "TrimRightSpace s = TrimRightSpace_fuel (length s) s"

definition TrimSpace :: "string \<Rightarrow> string" where
  "TrimSpace s = TrimRightSpace (TrimLeftSpace s)"

text \<open>
  \<^verbatim>\<open>unicode.ToLower\<close> is computed for ASCII and read from the Unicode case tables
  otherwise. The tables are data of the Go distribution, not of this repository, so
  every function that lower-cases text takes the table as its first argument
  \<open>ut :: rune \<Rightarrow> rune\<close>, and what is proved holds for every table unless a theorem
  says which property of the table it needs.
\<close>

definition unicode_ToLower :: "(rune \<Rightarrow> rune) \<Rightarrow> rune \<Rightarrow> rune" where
  "unicode_ToLower ut r =
    (if r \<le> 0x7F then (if 0x41 \<le> r \<and> r \<le> 0x5A then r + 0x20 else r) else ut r)"

text \<open>
  A table for the witnesses: Go's mapping on Latin-1 (U+00C0 to U+00DE lower-case by
  adding 0x20, the multiplication sign U+00D7 apart), nothing mapped above.
\<close>

definition latin1_lower :: "rune \<Rightarrow> rune" where
  "latin1_lower r = (if 0xC0 \<le> r \<and> r \<le> 0xDE \<and> r \<noteq> 0xD7 then r + 0x20 else r)"

text \<open>
  \<^verbatim>\<open>strings.Map\<close> writes the image of every rune; a byte that is no valid UTF-8 is
  read as U+FFFD and so written as the three bytes of U+FFFD.
\<close>

definition strings_Map :: "(rune \<Rightarrow> rune) \<Rightarrow> string \<Rightarrow> string" where
  "strings_Map mapping s = concat (map (\<lambda>x. EncodeRune (mapping (fst x))) (runes s))"

definition lower_ascii :: "char \<Rightarrow> char" where
  "lower_ascii c = (if 0x41 \<le> byte c \<and> byte c \<le> 0x5A then char_of (byte c + 0x20) else c)"

text \<open>\<^verbatim>\<open>strings.ToLower\<close>: a byte loop for ASCII-only text, \<^verbatim>\<open>Map(unicode.ToLower, s)\<close> otherwise.\<close>

definition ToLower :: "(rune \<Rightarrow> rune) \<Rightarrow> string \<Rightarrow> string" where
  "ToLower ut s =
    (if list_all (\<lambda>c. byte c < 0x80) s then map lower_ascii s
     else strings_Map (unicode_ToLower ut) s)"

fun HasPrefix :: "string \<Rightarrow> string \<Rightarrow> bool" where
  "HasPrefix s [] = True"
| "HasPrefix [] (p # ps) = False"
| "HasPrefix (c # cs) (p # ps) = (c = p \<and> HasPrefix cs ps)"

text \<open>\<^verbatim>\<open>strings.Contains\<close>: a byte-wise substring test.\<close>

fun Contains :: "string \<Rightarrow> string \<Rightarrow> bool" where
  "Contains [] substr = (substr = [])"
| "Contains (c # cs) substr = (HasPrefix (c # cs) substr \<or> Contains cs substr)"

text \<open>\<^verbatim>\<open>strings.Split(s, sep)\<close> for a separator of one byte (the program splits at newlines only).\<close>

fun Split :: "string \<Rightarrow> char \<Rightarrow> string list" where
  "Split [] sep = [[]]"
| "Split (c # cs) sep =
     (if c = sep then [] # Split cs sep
      else (case Split cs sep of x # xs \<Rightarrow> (c # x) # xs | [] \<Rightarrow> [[c]]))"

fun Join :: "string list \<Rightarrow> string \<Rightarrow> string" where
  "Join [] sep = []"
| "Join [x] sep = x"
| "Join (x # y # ys) sep = x @ sep @ Join (y # ys) sep"

text \<open>
  \<^verbatim>\<open>strings.ReplaceAll(s, old, new)\<close> for a non-empty \<open>old\<close>: non-overlapping
  occurrences, left to right.
\<close>

fun ReplaceAll :: "string \<Rightarrow> string \<Rightarrow> string \<Rightarrow> string" where
  "ReplaceAll [] old new = []"
| "ReplaceAll (c # cs) old new =
     (if old \<noteq> [] \<and> HasPrefix (c # cs) old then new @ ReplaceAll (drop (length old - 1) cs) old new
      else c # ReplaceAll cs old new)"

text \<open>The verb \<^verbatim>\<open>%d\<close> of \<^verbatim>\<open>fmt.Sprintf\<close> on a non-negative integer.\<close>

fun Itoa :: "nat \<Rightarrow> string" where
  "Itoa n = (if n < 10 then [char_of (0x30 + n)] else Itoa (n div 10) @ [char_of (0x30 + n mod 10)])"

declare Itoa.simps [simp del]

section \<open>The fragment of \<^verbatim>\<open>regexp\<close> that the program uses\<close>

text \<open>
  Every pattern of the program is a sequence of single-rune classes, each taken once or
  repeated greedily (\<^verbatim>\<open>*\<close>, \<^verbatim>\<open>+\<close>, \<^verbatim>\<open>{2,}\<close>), between optional anchors \<^verbatim>\<open>^\<close> and \<^verbatim>\<open>$\<close>.
  \<open>One p\<close> matches one rune of the class \<open>p\<close>; \<open>Rep p n\<close> matches at least \<open>n\<close> of
  them and prefers more. The matcher tries the alternatives in the order of Go's
  leftmost-first semantics: from a fixed start, a repetition first takes all it can and
  gives runes back one at a time. A match is reported as the runes each atom consumed,
  so the text of a capture group is the entry of its atom.
\<close>

datatype atom = One "rune \<Rightarrow> bool" | Rep "rune \<Rightarrow> bool" nat

text \<open>
  A compiled pattern: anchored at the start or not, the atoms, anchored at the end or
  not, and the capture groups. Each group of the program's patterns encloses one atom;
  the list names the atoms by index.
\<close>

datatype regexp = Regexp bool "atom list" bool "nat list"

primrec try_from :: "(nat \<Rightarrow> 'a option) \<Rightarrow> nat \<Rightarrow> nat \<Rightarrow> 'a option" where
  "try_from f lo 0 = f lo"
| "try_from f lo (Suc d) =
     (case f (lo + Suc d) of Some r \<Rightarrow> Some r | None \<Rightarrow> try_from f lo d)"

primrec match_here :: "atom list \<Rightarrow> bool \<Rightarrow> chunk list \<Rightarrow> chunk list list option" where
  "match_here [] eot rs = (if eot \<and> rs \<noteq> [] then None else Some [])"
| "match_here (a # ats) eot rs =
    (case a of
       One p \<Rightarrow>
         (case rs of
            [] \<Rightarrow> None
          | x # xs \<Rightarrow> if p (fst x) then map_option (Cons [x]) (match_here ats eot xs) else None)
     | Rep p lo \<Rightarrow>
         (if length (takeWhile (\<lambda>x. p (fst x)) rs) < lo then None
          else try_from (\<lambda>k. map_option (Cons (take k rs)) (match_here ats eot (drop k rs)))
                 lo (length (takeWhile (\<lambda>x. p (fst x)) rs) - lo)))"

text \<open>An unanchored pattern is tried at every rune, the leftmost start first.\<close>

fun leftmost :: "atom list \<Rightarrow> bool \<Rightarrow> chunk list \<Rightarrow> chunk list list option" where
  "leftmost ats eot [] = match_here ats eot []"
| "leftmost ats eot (x # xs) =
     (case match_here ats eot (x # xs) of Some g \<Rightarrow> Some g | None \<Rightarrow> leftmost ats eot xs)"

text \<open>
  \<^verbatim>\<open>FindStringSubmatch\<close>: \<open>None\<close> is Go's nil slice; otherwise the whole match
  followed by the text of each group. \<^verbatim>\<open>MatchString\<close> says whether there is a match.
\<close>

definition submatches :: "nat list \<Rightarrow> chunk list list \<Rightarrow> string list" where
  "submatches groups parts = unchunk (concat parts) # map (\<lambda>g. unchunk (parts ! g)) groups"

fun FindStringSubmatch :: "regexp \<Rightarrow> string \<Rightarrow> string list option" where
  "FindStringSubmatch (Regexp bol ats eot groups) s =
     map_option (submatches groups)
       ((if bol then match_here ats eot else leftmost ats eot) (runes s))"

definition MatchString :: "regexp \<Rightarrow> string \<Rightarrow> bool" where
  "MatchString re s = (FindStringSubmatch re s \<noteq> None)"

text \<open>
  \<^verbatim>\<open>ReplaceAllString\<close> for an unanchored pattern that cannot match the empty string
  (every pattern the program replaces starts with a class taken at least once): the
  leftmost match is replaced and the scan goes on behind it.
\<close>

fun replace_chunks :: "atom list \<Rightarrow> string \<Rightarrow> chunk list \<Rightarrow> string" where
  "replace_chunks ats repl [] = []"
| "replace_chunks ats repl (x # xs) =
     (case match_here ats False (x # xs) of
        None \<Rightarrow> snd x @ replace_chunks ats repl xs
      | Some g \<Rightarrow>
          (case length (concat g) of
             0 \<Rightarrow> snd x @ replace_chunks ats repl xs
           | Suc k \<Rightarrow> repl @ replace_chunks ats repl (drop k xs)))"

fun ReplaceAllString :: "regexp \<Rightarrow> string \<Rightarrow> string \<Rightarrow> string" where
  "ReplaceAllString (Regexp bol ats eot groups) src repl = replace_chunks ats repl (runes src)"

declare FindStringSubmatch.simps [simp del]

declare ReplaceAllString.simps [simp del]

text \<open>
  The classes: \<^verbatim>\<open>\s\<close> is \<^verbatim>\<open>[\t\n\f\r ]\<close> and \<^verbatim>\<open>\w\<close> is \<^verbatim>\<open>[0-9A-Za-z_]\<close> (both ASCII
  only in Go), \<^verbatim>\<open>.\<close> is every rune but the newline. Under \<^verbatim>\<open>(?i)\<close> a letter also
  matches the other members of its simple case-folding orbit: the other case, and
  U+212A (Kelvin sign) for k, U+017F (long s) for s.
\<close>

definition re_space :: "rune \<Rightarrow> bool" where
  "re_space r = (r = 0x09 \<or> r = 0x0A \<or> r = 0x0C \<or> r = 0x0D \<or> r = 0x20)"

definition re_alpha :: "rune \<Rightarrow> bool" where
  "re_alpha r = ((0x41 \<le> r \<and> r \<le> 0x5A) \<or> (0x61 \<le> r \<and> r \<le> 0x7A))"

definition re_word :: "rune \<Rightarrow> bool" where
  "re_word r = ((0x30 \<le> r \<and> r \<le> 0x39) \<or> re_alpha r \<or> r = 0x5F)"

definition re_dot :: "rune \<Rightarrow> bool" where
  "re_dot r = (r \<noteq> 0x0A)"

definition lit :: "char \<Rightarrow> rune \<Rightarrow> bool" where
  "lit c r = (r = byte c)"

definition fold_lit :: "char \<Rightarrow> rune \<Rightarrow> bool" where
  "fold_lit c r =
    (r = byte c \<or>
     (0x41 \<le> byte c \<and> byte c \<le> 0x5A \<and> r = byte c + 0x20) \<or>
     (0x61 \<le> byte c \<and> byte c \<le> 0x7A \<and> r = byte c - 0x20) \<or>
     ((byte c = 0x4B \<or> byte c = 0x6B) \<and> r = 0x212A) \<or>
     ((byte c = 0x53 \<or> byte c = 0x73) \<and> r = 0x17F))"

text \<open>\<^verbatim>\<open>regexp.Compile("(?i)" + pattern)\<close> for a pattern without metacharacters.\<close>

definition Compile_fold_literal :: "string \<Rightarrow> regexp" where
  "Compile_fold_literal pattern = Regexp False (map (\<lambda>c. One (fold_lit c)) pattern) False []"


section \<open>Errors and panics\<close>

text \<open>
  A Go \<^verbatim>\<open>error\<close> is \<^verbatim>\<open>fmt.Errorf\<close> of a message, possibly wrapping another error
  (\<^verbatim>\<open>%w\<close>); \<open>None :: error option\<close> is the nil error. A function that can panic
  returns an \<open>outcome\<close>.
\<close>

datatype error = Errorf string | Wrapf string error

datatype 'a outcome = Normal 'a | Panic

section \<open>Configuration (\<^verbatim>\<open>pkg/config\<close>)\<close>

record VertexAIConfig =
  ProjectID :: string
  Location :: string
  Model :: string
  MaxTokens :: int
  Temperature :: real
  SystemPrompt :: string
  EnableAutoSearch :: bool

record VoiceConfig =
  UseWhisperCpp :: bool
  WhisperCppPath :: string
  WhisperModelPath :: string
  SampleRate :: int
  Channels :: int
  ChunkSize :: int

record TTSConfig =
  Enabled :: bool
  Rate :: int
  Volume :: real
  VoiceID :: string

record Config =
  VertexAI :: VertexAIConfig
  Voice :: VoiceConfig
  TTS :: TTSConfig

section \<open>The smart client (\<^verbatim>\<open>pkg/claude\<close>)\<close>

record Message =
  Role :: string
  Content :: string

record SearchResult =
  Title :: string
  Snippet :: string
  Source :: string

record SearchResults =
  Results :: "SearchResult list"
  Error :: string

text \<open>
  The fields of \<^verbatim>\<open>SmartClient\<close> that \<^verbatim>\<open>SendMessage\<close> reads. The Vertex client behind
  it is the remote endpoint: an argument \<open>vertex\<close> that answers a request given the
  requests made before it, with an error or a text.
\<close>

record SmartClient =
  autoSearchEnabled :: bool
  searchTriggers :: "regexp list"

type_synonym vertex = "Message list list \<Rightarrow> Message list \<Rightarrow> error + string"

definition triggerPatterns :: "string list" where
  "triggerPatterns =
    [''I don'' @ [CHR 0x27] @ ''t have access to current information'',
     ''I cannot provide real-time information'',
     ''I don'' @ [CHR 0x27] @ ''t have access to weather data'',
     ''real-time weather information'',
     ''I don'' @ [CHR 0x27] @ ''t have access to internet'',
     ''updated data'',
     ''I don'' @ [CHR 0x27] @ ''t have access to real-time'',
     ''I don'' @ [CHR 0x27] @ ''t have access to current'',
     ''I cannot access current'',
     ''I don'' @ [CHR 0x27] @ ''t have internet access'',
     ''real-time information'',
     ''current information'',
     ''up-to-date information'']"

text \<open>\<^verbatim>\<open>NewSmartClient\<close>: all thirteen patterns are literals, so each of them compiles.\<close>

definition NewSmartClient :: "VertexAIConfig \<Rightarrow> SmartClient" where
  "NewSmartClient cfg =
    \<lparr>autoSearchEnabled = EnableAutoSearch cfg,
     searchTriggers = map Compile_fold_literal triggerPatterns\<rparr>"

fun containsAny :: "string \<Rightarrow> string list \<Rightarrow> bool" where
  "containsAny text [] = False"
| "containsAny text (substring # rest) =
     (if Contains text substring then True else containsAny text rest)"

fun anyTrigger :: "regexp list \<Rightarrow> string \<Rightarrow> bool" where
  "anyTrigger [] response = False"
| "anyTrigger (trigger # rest) response =
     (if MatchString trigger response then True else anyTrigger rest response)"

definition currentIndicators :: "string list" where
  "currentIndicators =
    [''hoy'',
     ''today'',
     ''ahora'',
     ''now'',
     ''actual'',
     ''current'',
     ''reciente'',
     ''recent'',
     [CHR 0xC3, CHR 0xBA] @ ''ltimo'',
     ''latest'',
     ''tiempo'',
     ''weather'',
     ''noticias'',
     ''news'',
     ''precio'',
     ''price'']"

definition needsWebSearch :: "(rune \<Rightarrow> rune) \<Rightarrow> SmartClient \<Rightarrow> string \<Rightarrow> Message list \<Rightarrow> bool" where
  "needsWebSearch ut s response messages =
    (if anyTrigger (searchTriggers s) response then True
     else if messages \<noteq> []
       then containsAny (ToLower ut (Content (last messages))) currentIndicators
     else False)"

text \<open>The class \<^verbatim>\<open>[A-Za-z\s]\<close> under \<^verbatim>\<open>(?i)\<close>, and the three location patterns.\<close>

definition fold_alpha_space :: "rune \<Rightarrow> bool" where
  "fold_alpha_space r = (re_alpha r \<or> re_space r \<or> r = 0x17F \<or> r = 0x212A)"

definition locationPattern :: "char \<Rightarrow> char \<Rightarrow> regexp" where
  "locationPattern a b =
    Regexp False [One (fold_lit a), One (fold_lit b), Rep re_space 1, Rep fold_alpha_space 1]
      False [3]"

definition locationPatterns :: "regexp list" where
  "locationPatterns =
    [locationPattern CHR ''e'' CHR ''n'',
     locationPattern CHR ''i'' CHR ''n'',
     locationPattern CHR ''d'' CHR ''e'']"

text \<open>The loop over the location patterns: the first pattern that matches decides.\<close>

fun firstLocation :: "regexp list \<Rightarrow> string \<Rightarrow> string option" where
  "firstLocation [] userMessage = None"
| "firstLocation (pattern # rest) userMessage =
     (case FindStringSubmatch pattern userMessage of
        Some matches \<Rightarrow>
          if length matches > 1 then Some (''weather today '' @ TrimSpace (matches ! 1))
          else firstLocation rest userMessage
      | None \<Rightarrow> firstLocation rest userMessage)"

definition extractSearchQuery :: "(rune \<Rightarrow> rune) \<Rightarrow> string \<Rightarrow> string \<Rightarrow> string" where
  "extractSearchQuery ut userMessage claudeResponse =
    (let userLower = ToLower ut userMessage in
     if containsAny userLower [''tiempo'', ''weather'', ''clima''] then
       (case firstLocation locationPatterns userMessage of
          Some query \<Rightarrow> query
        | None \<Rightarrow> ''weather today'')
     else if containsAny userLower
         [''real madrid'',
          ''madrid'',
          ''partido'',
          ''match'',
          ''resultado'',
          ''f'' @ [CHR 0xC3, CHR 0xBA] @ ''tbol'',
          ''futbol'',
          ''football''] then
       (if Contains userLower ''real madrid'' then
          (if containsAny userLower
               [[CHR 0xC3, CHR 0xBA] @ ''ltimo'',
                ''last'',
                ''recent'',
                ''ayer'',
                ''yesterday'']
           then ''Real Madrid latest match result today''
           else ''Real Madrid news today'')
        else ''football results today Spain'')
     else if containsAny userLower [''noticias'', ''news'', ''novedades''] then ''latest news today''
     else if containsAny userLower [''precio'', ''price'', ''bitcoin'', ''crypto'', ''bolsa''] then
       (if Contains userLower ''bitcoin'' then ''Bitcoin price today''
        else ''financial markets today'')
     else ''current information '' @ userMessage)"

text \<open>The simulated search: canned results chosen by the words of the query.\<close>

definition generateWeatherResults :: "(rune \<Rightarrow> rune) \<Rightarrow> string \<Rightarrow> SearchResults" where
  "generateWeatherResults ut location =
    (if ToLower ut location = ''madrid'' then
       \<lparr>Results =
        [\<lparr>Title = ''Madrid Weather Now'',
          Snippet = ''Partly cloudy, 8'' @ [CHR 0xC2, CHR 0xB0] @ ''C (46'' @ [CHR 0xC2, CHR 0xB0] @ ''F). High: 12'' @ [CHR 0xC2, CHR 0xB0] @ ''C, Low: 4'' @ [CHR 0xC2, CHR 0xB0] @ ''C. Light wind from the northwest at 10 km/h. No precipitation expected.'',
          Source = ''AEMET - Agencia Estatal de Meteorolog'' @ [CHR 0xC3, CHR 0xAD] @ ''a''\<rparr>,
         \<lparr>Title = ''Current Weather Conditions Madrid'',
          Snippet = ''Real-time weather: 8'' @ [CHR 0xC2, CHR 0xB0] @ ''C, feels like 6'' @ [CHR 0xC2, CHR 0xB0] @ ''C. Humidity 65%, visibility 10km. Air quality: Good.'',
          Source = ''Weather.com''\<rparr>],
       Error = ''''\<rparr>
     else
       \<lparr>Results =
        [\<lparr>Title = ''Weather Today'',
          Snippet = ''Current weather conditions and forecast. Check local weather services for specific location data.'',
          Source = ''Weather Service''\<rparr>],
       Error = ''''\<rparr>)"

definition generateFootballResults :: SearchResults where
  "generateFootballResults =
    \<lparr>Results =
        [\<lparr>Title = ''Real Madrid 3-1 Athletic Bilbao - Yesterday'',
          Snippet = ''Real Madrid gan'' @ [CHR 0xC3, CHR 0xB3] @ '' 3-1 contra Athletic Bilbao ayer en el Santiago Bernab'' @ [CHR 0xC3, CHR 0xA9] @ ''u. Goles de Vin'' @ [CHR 0xC3, CHR 0xAD] @ ''cius Jr. (2) y Bellingham. Los Blancos siguen l'' @ [CHR 0xC3, CHR 0xAD] @ ''deres en La Liga con 2 puntos de ventaja sobre el Barcelona.'',
          Source = ''Marca.com''\<rparr>,
         \<lparr>Title = ''La Liga Standings - Current'',
          Snippet = ''1. Real Madrid - 58 pts, 2. FC Barcelona - 56 pts, 3. Atl'' @ [CHR 0xC3, CHR 0xA9] @ ''tico Madrid - 51 pts. El Real Madrid ha ganado 4 de sus '' @ [CHR 0xC3, CHR 0xBA] @ ''ltimos 5 partidos en Liga.'',
          Source = ''ESPN Deportes''\<rparr>],
       Error = ''''\<rparr>"

definition generateFinancialResults :: SearchResults where
  "generateFinancialResults =
    \<lparr>Results =
        [\<lparr>Title = ''Bitcoin Price Now'',
          Snippet = ''Bitcoin: $52,430 USD (+2.3% today). Market cap: $1.03T. 24h trading volume: $28.5B.'',
          Source = ''CoinMarketCap''\<rparr>],
       Error = ''''\<rparr>"

definition generateNewsResults :: SearchResults where
  "generateNewsResults =
    \<lparr>Results =
        [\<lparr>Title = ''Latest News Today'',
          Snippet = ''Top headlines: Technology markets show growth, renewable energy initiatives expanded, international cooperation agreements signed.'',
          Source = ''News Agency''\<rparr>],
       Error = ''''\<rparr>"

definition generateSportsResults :: SearchResults where
  "generateSportsResults =
    \<lparr>Results =
        [\<lparr>Title = ''Football Results Today'',
          Snippet = ''La Liga: Real Madrid lidera. Premier League: Manchester City 2-0 Arsenal. Champions League: Octavos de final pr'' @ [CHR 0xC3, CHR 0xB3] @ ''xima semana.'',
          Source = ''Mundo Deportivo''\<rparr>],
       Error = ''''\<rparr>"

definition generateMarketResults :: SearchResults where
  "generateMarketResults =
    \<lparr>Results =
        [\<lparr>Title = ''Financial Markets Today'',
          Snippet = ''Global markets mixed. S&P 500 +0.8%, NASDAQ +1.2%, EUR/USD 1.0856. Tech stocks leading gains.'',
          Source = ''Financial Times''\<rparr>],
       Error = ''''\<rparr>"

definition generateCurrentInfoResults :: "string \<Rightarrow> SearchResults" where
  "generateCurrentInfoResults query =
    \<lparr>Results =
      [\<lparr>Title = ''Current Information Search'',
        Snippet = ''Current search for: '' @ [CHR 0x27] @ query @ [CHR 0x27] @
          ''. For more specific information, try rephrasing your question.'',
        Source = ''Search Engine''\<rparr>],
     Error = ''''\<rparr>"

definition simulateRealisticSearch :: "(rune \<Rightarrow> rune) \<Rightarrow> string \<Rightarrow> SearchResults" where
  "simulateRealisticSearch ut query =
    (let queryLower = ToLower ut query in
     if Contains queryLower ''weather today'' then
       (if Contains queryLower ''madrid'' then generateWeatherResults ut ''Madrid''
        else generateWeatherResults ut ''location'')
     else if Contains queryLower ''real madrid latest match'' then generateFootballResults
     else if Contains queryLower ''bitcoin price'' then generateFinancialResults
     else if Contains queryLower ''latest news'' then generateNewsResults
     else if Contains queryLower ''football results'' then generateSportsResults
     else if Contains queryLower ''financial markets'' then generateMarketResults
     else generateCurrentInfoResults query)"

text \<open>
  \<^verbatim>\<open>performSmartSearch\<close> returns a pointer, which \<^verbatim>\<open>SendMessage\<close> compares with nil:
  \<open>None\<close> is the nil pointer.
\<close>

definition performSmartSearch :: "(rune \<Rightarrow> rune) \<Rightarrow> string \<Rightarrow> SearchResults option" where
  "performSmartSearch ut query = Some (simulateRealisticSearch ut query)"

text \<open>
  The loop of \<^verbatim>\<open>formatSearchResults\<close>, with its index and its \<^verbatim>\<open>break\<close> at index 3.
\<close>

fun formatLoop :: "nat \<Rightarrow> SearchResult list \<Rightarrow> string list" where
  "formatLoop i [] = []"
| "formatLoop i (result # rest) =
     (if i \<ge> 3 then []
      else (Itoa (i + 1) @ ''. '' @ (if Title result = '''' then ''No title'' else Title result) @
            '' ('' @ (if Source result = '''' then ''Unknown source'' else Source result) @ '')'' @
            [CHR 0x0A] @ ''   '' @
            (if Snippet result = '''' then ''No description'' else Snippet result))
           # formatLoop (i + 1) rest)"

definition formatSearchResults :: "SearchResults \<Rightarrow> string" where
  "formatSearchResults searchResults =
    (if Results searchResults = [] then ''No current information found.''
     else Join (formatLoop 0 (Results searchResults)) [CHR 0x0A, CHR 0x0A])"

text \<open>
  \<^verbatim>\<open>createEnhancedResponse\<close>: the second request is the original messages, the first
  reply as an assistant message and the formatted results as a user message.
\<close>

definition enhancedMessages :: "Message list \<Rightarrow> string \<Rightarrow> string \<Rightarrow> SearchResults \<Rightarrow> Message list" where
  "enhancedMessages messages initialResponse searchQuery searchResults =
    messages @
    [\<lparr>Role = ''assistant'', Content = initialResponse\<rparr>,
     \<lparr>Role = ''user'',
      Content = ''I searched for current information about '' @ [CHR 0x27] @ searchQuery @
        [CHR 0x27] @ '' and found this:'' @ [CHR 0x0A, CHR 0x0A] @
        formatSearchResults searchResults @ [CHR 0x0A, CHR 0x0A] @
        ''With this info, respond to my original question briefly and informally (maximum 2-3 sentences).''\<rparr>]"

definition createEnhancedResponse ::
  "vertex \<Rightarrow> Message list list \<Rightarrow> Message list \<Rightarrow> string \<Rightarrow> string \<Rightarrow> SearchResults
    \<Rightarrow> (error + string)" where
  "createEnhancedResponse vertex sent messages initialResponse searchQuery searchResults =
    (case vertex sent (enhancedMessages messages initialResponse searchQuery searchResults) of
       Inl err \<Rightarrow> Inl (Wrapf ''failed to get enhanced response'' err)
     | Inr enhancedResponse \<Rightarrow>
         if enhancedResponse \<noteq> '''' then Inr enhancedResponse
         else Inl (Errorf ''empty enhanced response''))"

text \<open>
  \<^verbatim>\<open>SmartClient.SendMessage\<close>, with the search step as the argument \<open>search\<close>
  (\<^verbatim>\<open>s.performSmartSearch\<close> in the source). The result comes with the list of requests
  sent to the Vertex client, in order. Logging is left out but for one argument of a
  log call: \<^verbatim>\<open>initialResponse[:100]\<close> is evaluated before the call, and slicing a
  string beyond its length panics.
\<close>

definition SendMessage_with ::
  "(string \<Rightarrow> SearchResults option) \<Rightarrow> (rune \<Rightarrow> rune) \<Rightarrow> SmartClient \<Rightarrow> vertex \<Rightarrow> Message list
    \<Rightarrow> (error + string) outcome \<times> Message list list" where
  "SendMessage_with search ut s vertex messages =
    (case vertex [] messages of
       Inl err \<Rightarrow> (Normal (Inl (Wrapf ''failed to get initial response'' err)), [messages])
     | Inr initialResponse \<Rightarrow>
         if initialResponse = '''' then
           (Normal (Inl (Errorf ''empty response from Claude'')), [messages])
         else if autoSearchEnabled s \<and> needsWebSearch ut s initialResponse messages then
           (if length initialResponse < 100 then (Panic, [messages])
            else
              (let userMessage = (if messages \<noteq> [] then Content (last messages) else '''');
                   searchQuery = extractSearchQuery ut userMessage initialResponse
               in if searchQuery \<noteq> '''' then
                    (case search searchQuery of
                       Some searchResults \<Rightarrow>
                         if Error searchResults = '''' \<and> Results searchResults \<noteq> [] then
                           (case createEnhancedResponse vertex [messages] messages
                                   initialResponse searchQuery searchResults of
                              Inr enhancedResponse \<Rightarrow>
                                (Normal (Inr (if enhancedResponse \<noteq> '''' then enhancedResponse
                                              else initialResponse)),
                                 [messages, enhancedMessages messages initialResponse
                                              searchQuery searchResults])
                            | Inl err \<Rightarrow>
                                (Normal (Inr initialResponse),
                                 [messages, enhancedMessages messages initialResponse
                                              searchQuery searchResults]))
                         else (Normal (Inr initialResponse), [messages])
                     | None \<Rightarrow> (Normal (Inr initialResponse), [messages]))
                  else (Normal (Inr initialResponse), [messages])))
         else (Normal (Inr initialResponse), [messages]))"

definition SendMessage ::
  "(rune \<Rightarrow> rune) \<Rightarrow> SmartClient \<Rightarrow> vertex \<Rightarrow> Message list
    \<Rightarrow> (error + string) outcome \<times> Message list list" where
  "SendMessage ut = SendMessage_with (performSmartSearch ut) ut"


section \<open>Transcription (\<^verbatim>\<open>pkg/voice\<close>, whisper.cpp)\<close>

text \<open>The pattern \<^verbatim>\<open>^\s*\[.*-->\s*.*\]\s*$\<close> of \<^verbatim>\<open>isTimestampLine\<close>.\<close>

definition timestampPattern :: regexp where
  "timestampPattern =
    Regexp True
      [Rep re_space 0, One (lit CHR ''[''), Rep re_dot 0,
       One (lit CHR ''-''), One (lit CHR ''-''), One (lit CHR ''>''),
       Rep re_space 0, Rep re_dot 0, One (lit CHR '']''), Rep re_space 0]
      True []"

definition isTimestampLine :: "string \<Rightarrow> bool" where
  "isTimestampLine line = MatchString timestampPattern line"

definition debugPatterns :: "string list" where
  "debugPatterns =
    [''output_txt: saving output to'', ''output_vtt: saving output to'',
     ''output_srt: saving output to'', ''whisper_print_timings:'', ''load time ='',
     ''fallbacks ='', ''main:'']"

definition isDebugLine :: "(rune \<Rightarrow> rune) \<Rightarrow> string \<Rightarrow> bool" where
  "isDebugLine ut line = containsAny (ToLower ut line) debugPatterns"

text \<open>
  The loop of \<^verbatim>\<open>parseWhisperOutput\<close> over the lines: \<open>textLines\<close> is the slice it
  appends to.
\<close>

fun textLines :: "(rune \<Rightarrow> rune) \<Rightarrow> string list \<Rightarrow> string list" where
  "textLines ut [] = []"
| "textLines ut (line # rest) =
     (if TrimSpace line \<noteq> '''' \<and> \<not> isTimestampLine (TrimSpace line) \<and>
         \<not> isDebugLine ut (TrimSpace line)
      then TrimSpace line # textLines ut rest
      else textLines ut rest)"

definition parseWhisperOutput :: "(rune \<Rightarrow> rune) \<Rightarrow> string \<Rightarrow> string" where
  "parseWhisperOutput ut output =
     Join (textLines ut (Split (TrimSpace output) (CHR 0x0A))) '' ''"

definition spaceRegex :: regexp where
  "spaceRegex = Regexp False [Rep re_space 1] False []"

definition cleanTranscription :: "string \<Rightarrow> string" where
  "cleanTranscription text =
    TrimSpace
      (ReplaceAllString spaceRegex
        (ReplaceAll
          (ReplaceAll
            (ReplaceAll
              (ReplaceAll (ReplaceAll text ''[BLANK_AUDIO]'' '''') ''(silence)'' '''')
              ''(music)'' '''')
            (''[m'' @ [CHR 0xC3, CHR 0xBA] @ ''sica]'') '''')
          (''[M'' @ [CHR 0xC3, CHR 0x9A] @ ''SICA]'') '''')
        '' '')"

text \<open>
  \<^verbatim>\<open>Transcribe\<close> after the backend has run without error: \<open>output\<close> is what the
  process wrote, \<open>txtFile\<close> the content of the sibling \<^verbatim>\<open>.txt\<close> file if it can be
  read. The file is the fallback when parsing the output leaves nothing, and it is not
  parsed.
\<close>

definition transcription_of :: "(rune \<Rightarrow> rune) \<Rightarrow> string \<Rightarrow> string option \<Rightarrow> string" where
  "transcription_of ut output txtFile =
    (let transcription = (if output \<noteq> [] then parseWhisperOutput ut output else '''')
     in cleanTranscription
          (if transcription = '''' then (case txtFile of Some data \<Rightarrow> data | None \<Rightarrow> '''')
           else transcription))"

section \<open>Speech synthesis (\<^verbatim>\<open>pkg/voice\<close>, system TTS)\<close>

text \<open>
  The class of \<^verbatim>\<open>emojiRegex\<close> is the complement of: \<^verbatim>\<open>\w\<close>, \<^verbatim>\<open>\s\<close>, the
  punctuation \<^verbatim>\<open>. , ! ? : ; - ( ) ' "\<close> and the fourteen accented letters.
\<close>

definition speech_allowed :: "rune \<Rightarrow> bool" where
  "speech_allowed r =
    (re_word r \<or> re_space r \<or>
     r = 0x2E \<or> r = 0x2C \<or> r = 0x21 \<or> r = 0x3F \<or> r = 0x3A \<or> r = 0x3B \<or> r = 0x2D \<or>
     r = 0x28 \<or> r = 0x29 \<or> r = 0x27 \<or> r = 0x22 \<or>
     r = 0xE1 \<or> r = 0xE9 \<or> r = 0xED \<or> r = 0xF3 \<or> r = 0xFA \<or> r = 0xF1 \<or>
     r = 0xC1 \<or> r = 0xC9 \<or> r = 0xCD \<or> r = 0xD3 \<or> r = 0xDA \<or> r = 0xD1 \<or>
     r = 0xFC \<or> r = 0xDC)"

text \<open>
  The allow-list as the specification lists it: word characters, common punctuation and
  accented Latin letters, each read as the class of the code has it. The class of the code
  is this list together with \<^verbatim>\<open>\s\<close>.
\<close>

definition listed_allow_list :: "rune \<Rightarrow> bool" where
  "listed_allow_list r =
    (re_word r \<or>
     r = 0x2E \<or> r = 0x2C \<or> r = 0x21 \<or> r = 0x3F \<or> r = 0x3A \<or> r = 0x3B \<or> r = 0x2D \<or>
     r = 0x28 \<or> r = 0x29 \<or> r = 0x27 \<or> r = 0x22 \<or>
     r = 0xE1 \<or> r = 0xE9 \<or> r = 0xED \<or> r = 0xF3 \<or> r = 0xFA \<or> r = 0xF1 \<or>
     r = 0xC1 \<or> r = 0xC9 \<or> r = 0xCD \<or> r = 0xD3 \<or> r = 0xDA \<or> r = 0xD1 \<or>
     r = 0xFC \<or> r = 0xDC)"

definition emojiRegex :: regexp where
  "emojiRegex = Regexp False [One (\<lambda>r. \<not> speech_allowed r)] False []"

definition markdownPatterns :: "regexp list" where
  "markdownPatterns =
    [Regexp False [Rep (lit CHR ''*'') 1] False [],
     Regexp False [Rep (lit CHR ''#'') 1] False [],
     Regexp False [Rep (lit CHR 0x60) 1] False [],
     Regexp False [Rep (lit CHR ''_'') 1] False []]"

fun removePatterns :: "regexp list \<Rightarrow> string \<Rightarrow> string" where
  "removePatterns [] cleanText = cleanText"
| "removePatterns (pattern # rest) cleanText =
     removePatterns rest (ReplaceAllString pattern cleanText '''')"

definition cleanTextForSpeech :: "string \<Rightarrow> string" where
  "cleanTextForSpeech text =
    TrimSpace
      (ReplaceAllString (Regexp False [Rep (lit CHR ''.'') 2] False [])
        (ReplaceAllString (Regexp False [Rep re_space 1] False [])
          (ReplaceAllString (Regexp False [Rep (lit CHR 0x0A) 1] False [])
            (removePatterns markdownPatterns (ReplaceAllString emojiRegex text '' ''))
            ''. '')
          '' '')
        ''.'')"

record SystemTTS =
  command :: string
  args :: "string list"

text \<open>
  \<^verbatim>\<open>SystemTTS.Speak\<close>. The operating system is the argument \<open>run\<close>: the result of
  running a command with its arguments. The second component lists the subprocesses
  spawned.
\<close>

definition Speak ::
  "(string \<Rightarrow> string list \<Rightarrow> error option) \<Rightarrow> SystemTTS \<Rightarrow> string
    \<Rightarrow> error option \<times> (string \<times> string list) list" where
  "Speak run s text =
    (if text = '''' then (None, [])
     else if cleanTextForSpeech text = '''' then (None, [])
     else
       (case run (command s) (args s @ [cleanTextForSpeech text]) of
          Some err \<Rightarrow> (Some (Wrapf ''TTS command failed'' err),
                       [(command s, args s @ [cleanTextForSpeech text])])
        | None \<Rightarrow> (None, [(command s, args s @ [cleanTextForSpeech text])])))"

section \<open>Audio capture (\<^verbatim>\<open>pkg/voice\<close>, ffmpeg)\<close>

record AudioRecorder =
  AudioFilePath :: string

text \<open>
  What one capture meets outside the program: the path built for the artifact, the
  result of running ffmpeg, and what \<^verbatim>\<open>os.Stat\<close> says about the path afterwards.
\<close>

datatype stat_result = StatFound | StatNotExist | StatOtherError






section \<open>The session loop (\<^verbatim>\<open>pkg/voice\<close>, \<^verbatim>\<open>Interface\<close>)\<close>

record WhisperCppTranscriber =
  whisperCppPath :: string
  modelPath :: string

text \<open>The session: its configuration and its adapters; \<open>tts = None\<close> is the nil interface.\<close>

record Interface =
  config :: Config
  claudeClient :: SmartClient
  recorder :: AudioRecorder
  transcriber :: WhisperCppTranscriber
  tts :: "SystemTTS option"

text \<open>
  The calls a command makes on the adapters, in order, and the world that answers
  them: each answer may depend on the calls made so far. \<open>capture\<close> answers
  \<^verbatim>\<open>v.recorder.RecordAudio\<close> with the artifact path it stored and its two results,
  \<open>transcribe\<close> answers \<^verbatim>\<open>v.transcriber.Transcribe\<close>, \<open>send\<close> answers
  \<^verbatim>\<open>v.claudeClient.SendMessage\<close> and \<open>speak\<close> answers \<^verbatim>\<open>v.tts.Speak\<close>. The one log
  line kept is the warning of the \<^verbatim>\<open>default\<close> arm, its only effect.
\<close>

datatype action =
  Captured int
  | Transcribed string string
  | Sent "Message list"
  | Spoke string
  | WarnUnknownCommand string

record world =
  capture :: "action list \<Rightarrow> int \<Rightarrow> string \<times> bool \<times> error option"
  transcribe :: "action list \<Rightarrow> string \<Rightarrow> string \<Rightarrow> error + string"
  send :: "action list \<Rightarrow> Message list \<Rightarrow> (error + string) outcome"
  speak :: "action list \<Rightarrow> string \<Rightarrow> error option"

definition processAudio ::
  "world \<Rightarrow> Interface \<Rightarrow> action list \<Rightarrow> error option outcome \<times> action list" where
  "processAudio w v tr =
    (if AudioFilePath (recorder v) = '''' then
       (Normal (Some (Errorf ''no audio file to process'')), tr)
     else
       (case transcribe w tr (AudioFilePath (recorder v)) ''es'' of
          Inl err \<Rightarrow>
            (Normal (Some (Wrapf ''transcription failed'' err)),
             tr @ [Transcribed (AudioFilePath (recorder v)) ''es''])
        | Inr transcription \<Rightarrow>
            (let tr1 = tr @ [Transcribed (AudioFilePath (recorder v)) ''es''];
                 messages = [\<lparr>Role = ''user'', Content = TrimSpace transcription\<rparr>]
             in if TrimSpace transcription = '''' then (Normal None, tr1)
                else
                  (case send w tr1 messages of
                     Panic \<Rightarrow> (Panic, tr1 @ [Sent messages])
                   | Normal (Inl err) \<Rightarrow>
                       (Normal (Some (Wrapf ''Claude request failed'' err)),
                        tr1 @ [Sent messages])
                   | Normal (Inr response) \<Rightarrow>
                       if response = '''' then (Normal None, tr1 @ [Sent messages])
                       else if Enabled (TTS (config v)) \<and> tts v \<noteq> None
                         then (Normal None, tr1 @ [Sent messages, Spoke response])
                       else (Normal None, tr1 @ [Sent messages])))))"

definition processVoiceCommand ::
  "world \<Rightarrow> Interface \<Rightarrow> action list \<Rightarrow> int
    \<Rightarrow> error option outcome \<times> Interface \<times> action list" where
  "processVoiceCommand w v tr durationSeconds =
    (case capture w tr durationSeconds of
       (path, success, err) \<Rightarrow>
         (let v1 = v\<lparr>recorder := (recorder v)\<lparr>AudioFilePath := path\<rparr>\<rparr>;
              tr1 = tr @ [Captured durationSeconds]
          in case err of
               Some e \<Rightarrow> (Normal (Some (Wrapf ''recording failed'' e)), v1, tr1)
             | None \<Rightarrow>
                 if \<not> success then (Normal None, v1, tr1)
                 else (fst (processAudio w v1 tr1), v1, snd (processAudio w v1 tr1))))"

definition testMicrophone ::
  "world \<Rightarrow> Interface \<Rightarrow> action list \<Rightarrow> int
    \<Rightarrow> error option outcome \<times> Interface \<times> action list" where
  "testMicrophone w v tr durationSeconds =
    (case capture w tr durationSeconds of
       (path, success, err) \<Rightarrow>
         (Normal err, v\<lparr>recorder := (recorder v)\<lparr>AudioFilePath := path\<rparr>\<rparr>,
          tr @ [Captured durationSeconds]))"

definition testText :: string where
  "testText = ''Hello, this is a voice test. Everything is working correctly.''"

definition testTTS ::
  "world \<Rightarrow> Interface \<Rightarrow> action list \<Rightarrow> error option outcome \<times> Interface \<times> action list" where
  "testTTS w v tr =
    (if \<not> Enabled (TTS (config v)) \<or> tts v = None then (Normal None, v, tr)
     else
       (case speak w tr testText of
          Some err \<Rightarrow> (Normal (Some (Wrapf ''TTS test failed'' err)), v, tr @ [Spoke testText])
        | None \<Rightarrow> (Normal None, v, tr @ [Spoke testText])))"

text \<open>
  \<^verbatim>\<open>Run\<close>. Each turn of the loop takes one event: the context is found cancelled, or
  \<^verbatim>\<open>Readline\<close> returns a line or an error. A command runs to its end before the next
  event is taken; the error it returns is logged and dropped, a panic ends the loop.
  \<open>Awaiting\<close> is the loop blocked in the next read when the events end.
\<close>

datatype readline_result = Line string | ErrInterrupt | EOF | ReadError error

datatype loop_event = ContextDone | Read readline_result

datatype run_result = Returned "error option" | Panicked | Awaiting

definition toggleSpeech :: "Interface \<Rightarrow> Interface" where
  "toggleSpeech v =
    v\<lparr>config := (config v)\<lparr>TTS := (TTS (config v))\<lparr>Enabled := \<not> Enabled (TTS (config v))\<rparr>\<rparr>\<rparr>"

fun Run ::
  "world \<Rightarrow> (rune \<Rightarrow> rune) \<Rightarrow> error \<Rightarrow> Interface \<Rightarrow> action list \<Rightarrow> loop_event list
    \<Rightarrow> run_result \<times> Interface \<times> action list" where
  "Run w ut ctxErr v tr [] = (Awaiting, v, tr)"
| "Run w ut ctxErr v tr (ContextDone # events) = (Returned (Some ctxErr), v, tr)"
| "Run w ut ctxErr v tr (Read ErrInterrupt # events) = (Returned None, v, tr)"
| "Run w ut ctxErr v tr (Read EOF # events) = (Returned None, v, tr)"
| "Run w ut ctxErr v tr (Read (ReadError err) # events) =
     (Returned (Some (Wrapf ''error reading input'' err)), v, tr)"
| "Run w ut ctxErr v tr (Read (Line line) # events) =
     (let command = TrimSpace (ToLower ut line) in
      if command = ''r'' then
        (case processVoiceCommand w v tr 7 of
           (Panic, v1, tr1) \<Rightarrow> (Panicked, v1, tr1)
         | (Normal err, v1, tr1) \<Rightarrow> Run w ut ctxErr v1 tr1 events)
      else if command = ''l'' then
        (case processVoiceCommand w v tr 12 of
           (Panic, v1, tr1) \<Rightarrow> (Panicked, v1, tr1)
         | (Normal err, v1, tr1) \<Rightarrow> Run w ut ctxErr v1 tr1 events)
      else if command = ''t'' then
        (case testMicrophone w v tr 3 of
           (Panic, v1, tr1) \<Rightarrow> (Panicked, v1, tr1)
         | (Normal err, v1, tr1) \<Rightarrow> Run w ut ctxErr v1 tr1 events)
      else if command = ''x'' then
        (case testTTS w v tr of
           (Panic, v1, tr1) \<Rightarrow> (Panicked, v1, tr1)
         | (Normal err, v1, tr1) \<Rightarrow> Run w ut ctxErr v1 tr1 events)
      else if command = ''s'' then Run w ut ctxErr (toggleSpeech v) tr events
      else if command = ''q'' then (Returned None, v, tr)
      else if command = '''' then Run w ut ctxErr v tr events
      else Run w ut ctxErr v (tr @ [WarnUnknownCommand command]) events)"

section \<open>The snippet format, in the words of the specification and as the code writes it\<close>

text \<open>
  The specification gives the format of one snippet as
  "<index>. <title> (<source>)\<newline>   <body>": \<open>spec_snippet_format\<close> follows these
  words. \<open>code_snippet_format\<close> is the string that one turn of the loop in
  \<^verbatim>\<open>formatSearchResults\<close> appends, with its three replacements for empty fields.
\<close>

definition spec_snippet_format :: "nat \<Rightarrow> SearchResult \<Rightarrow> string" where
  "spec_snippet_format index r =
    Itoa index @ ''. '' @ Title r @ '' ('' @ Source r @ '')'' @ [CHR 0x0A] @ ''   '' @ Snippet r"

definition code_snippet_format :: "nat \<Rightarrow> SearchResult \<Rightarrow> string" where
  "code_snippet_format index r =
    Itoa index @ ''. '' @ (if Title r = '''' then ''No title'' else Title r) @ '' ('' @
    (if Source r = '''' then ''Unknown source'' else Source r) @ '')'' @ [CHR 0x0A] @ ''   '' @
    (if Snippet r = '''' then ''No description'' else Snippet r)"

section \<open>The timestamp range, in the words of the specification\<close>

text \<open>
  The specification writes the lines to drop as \<open>[hh:mm:ss.mmm --> hh:mm:ss.mmm]\<close>:
  \<open>is_clock\<close> is a time of day in this form (a digit where the shape has 0) and
  \<open>timestamp_range\<close> the line made of two of them. \<open>whisper_sample\<close> is the example
  output of the specification.
\<close>

definition is_digit :: "char \<Rightarrow> bool" where
  "is_digit c = (0x30 \<le> byte c \<and> byte c \<le> 0x39)"

definition is_clock :: "string \<Rightarrow> bool" where
  "is_clock t =
    list_all2 (\<lambda>c shape. if shape = CHR ''0'' then is_digit c else c = shape) t ''00:00:00.000''"

definition timestamp_range :: "string \<Rightarrow> string \<Rightarrow> string" where
  "timestamp_range a b = ''['' @ a @ '' --> '' @ b @ '']''"

definition whisper_sample :: string where
  "whisper_sample = ''[00:00:00.000 --> 00:00:02.000]'' @ [CHR 0x0A] @ ''Hello there'' @ [CHR 0x0A]"

section \<open>Sample inputs\<close>

text \<open>
  The configuration that \<^verbatim>\<open>config.Load\<close> builds when no variable is set, a session
  over it, and a world in which every capture ends without audio and without error.
\<close>

definition sample_config :: Config where
  "sample_config =
    \<lparr>VertexAI = \<lparr>ProjectID = ''your-gcp-project-id'', Location = ''us-east5'',
        Model = ''claude-sonnet-4@20250514'', MaxTokens = 1000, Temperature = 0.7,
        SystemPrompt = '''', EnableAutoSearch = True\<rparr>,
     Voice = \<lparr>UseWhisperCpp = True,
        WhisperCppPath = ''./work/repos/whisper.cpp/build/bin/whisper-cli'',
        WhisperModelPath = ''./work/repos/whisper.cpp/models/ggml-small.bin'',
        SampleRate = 22050, Channels = 1, ChunkSize = 2048\<rparr>,
     TTS = \<lparr>Enabled = True, Rate = 160, Volume = 0.9, VoiceID = ''''\<rparr>\<rparr>"

definition sample_session :: Interface where
  "sample_session =
    \<lparr>config = sample_config,
     claudeClient = NewSmartClient (VertexAI sample_config),
     recorder = \<lparr>AudioFilePath = ''''\<rparr>,
     transcriber = \<lparr>whisperCppPath = ''./work/repos/whisper.cpp/build/bin/whisper-cli'',
        modelPath = ''./work/repos/whisper.cpp/models/ggml-small.bin''\<rparr>,
     tts = Some \<lparr>command = ''espeak-ng'', args = [''-v'', ''es'', ''-s'', ''160'']\<rparr>\<rparr>"

definition sample_path :: string where
  "sample_path = ''/work/temp/desk_pet_recording_20250101_120000.wav''"

definition silent_world :: world where
  "silent_world =
    \<lparr>capture = (\<lambda>tr d. (sample_path, False, None)),
     transcribe = (\<lambda>tr p l. Inr ''hola''),
     send = (\<lambda>tr m. Normal (Inr ''ok'')),
     speak = (\<lambda>tr t. None)\<rparr>"


definition four_results :: SearchResults where
  "four_results =
    \<lparr>Results =
       [\<lparr>Title = ''A'', Snippet = ''a'', Source = ''x''\<rparr>,
        \<lparr>Title = ''B'', Snippet = ''b'', Source = ''y''\<rparr>,
        \<lparr>Title = ''C'', Snippet = ''c'', Source = ''z''\<rparr>,
        \<lparr>Title = ''D'', Snippet = ''d'', Source = ''w''\<rparr>],
     Error = ''''\<rparr>"

text \<open>
  A text of an emoji, a space, three symbols, a tab, a byte that is no UTF-8 and a carriage
  return, and a line of a space, a no-break space and a tab.
\<close>

definition unspeakable :: string where
  "unspeakable =
    [CHR 0xF0, CHR 0x9F, CHR 0x98, CHR 0x80] @ '' @$%'' @ [CHR 0x09, CHR 0xFF, CHR 0x0D]"

definition blank_line :: string where
  "blank_line = '' '' @ [CHR 0xC2, CHR 0xA0, CHR 0x09]"

text \<open>
  The phrase of the first trigger pattern, the question about the weather, and a reply of
  105 bytes that contains the phrase.
\<close>

definition no_access_phrase :: string where
  "no_access_phrase = ''I don'' @ [CHR 0x27] @ ''t have access to current information''"

definition weather_question :: "Message list" where
  "weather_question = [\<lparr>Role = ''user'', Content = ''what's the weather in Madrid''\<rparr>]"


section \<open>Evaluation rules\<close>

text \<open>
  The defining equations that the simplifier needs to run the string functions and the
  matcher on given text.
\<close>

lemmas string_eval =
  byte_def inrange_def RuneError_def DecodeRune.simps runes.simps unchunk_def EncodeRune_def RuneStart_def
  DecodeLastRune_def IsSpace_def TrimLeftSpace_def TrimRightSpace_def TrimSpace_def
  unicode_ToLower_def latin1_lower_def strings_Map_def lower_ascii_def ToLower_def Let_def
  char_of_def bit_Suc_0_iff bit_0

lemmas regexp_eval =
  FindStringSubmatch.simps ReplaceAllString.simps submatches_def MatchString_def re_space_def re_alpha_def re_word_def re_dot_def lit_def
  fold_lit_def Compile_fold_literal_def

section \<open>Decoding\<close>

lemma DecodeRune_ascii: "byte c < 0x80 \<Longrightarrow> DecodeRune (c # cs) = (byte c, 1)"
  by (simp add: DecodeRune.simps)

lemma runes_ascii_Cons: "byte c < 0x80 \<Longrightarrow> runes (c # cs) = (byte c, [c]) # runes cs"
  by (simp add: runes.simps DecodeRune_ascii)

lemma runes_ascii: "list_all (\<lambda>c. byte c < 0x80) s \<Longrightarrow> runes s = map (\<lambda>c. (byte c, [c])) s"
  by (induction s) (simp_all add: runes_ascii_Cons)

text \<open>A rune below U+0080 is always read from a single byte, the byte of that value.\<close>

lemma DecodeRune_small:
  assumes "fst (DecodeRune (c # cs)) < 0x80"
  shows "DecodeRune (c # cs) = (byte c, 1)"
proof (cases "byte c < 0x80")
  case True
  then show ?thesis by (simp add: DecodeRune.simps)
next
  case False
  have "0x80 \<le> fst (DecodeRune (c # cs))"
  proof (cases "byte c < 0xC2 \<or> 0xF4 < byte c")
    case True
    with False show ?thesis by (simp add: DecodeRune.simps RuneError_def)
  next
    case mid: False
    then obtain k where k: "byte c = 0xC2 + k"
      by (metis le_Suc_ex not_less)
    show ?thesis
    proof (cases "byte c < 0xE0")
      case True
      then show ?thesis
        by (simp add: DecodeRune.simps RuneError_def inrange_def k split: list.split)
    next
      case ge: False
      then obtain j where j: "byte c = 0xE0 + j"
        by (metis le_Suc_ex not_less)
      show ?thesis
      proof (cases "byte c < 0xF0")
        case True
        then show ?thesis
          by (cases j) (auto simp: DecodeRune.simps RuneError_def inrange_def j diff_mult_distrib add_mult_distrib split: list.split)
      next
        case f: False
        then obtain i where i: "byte c = 0xF0 + i"
          by (metis le_Suc_ex not_less)
        from mid show ?thesis
          by (cases i) (auto simp: DecodeRune.simps RuneError_def inrange_def i diff_mult_distrib add_mult_distrib split: list.split)
      qed
    qed
  qed
  with assms show ?thesis by simp
qed

lemma runes_small_chunk:
  "x \<in> set (runes s) \<Longrightarrow> fst x < 0x80 \<Longrightarrow> \<exists>c. x = (byte c, [c])"
proof (induction s rule: runes.induct)
  case 1
  then show ?case by simp
next
  case (2 c cs)
  from "2.prems"(1) consider
    (hd) "x = (fst (DecodeRune (c # cs)), take (snd (DecodeRune (c # cs))) (c # cs))"
    | (tl) "x \<in> set (runes (drop (snd (DecodeRune (c # cs)) - 1) cs))"
    by (auto simp: runes.simps)
  then show ?case
  proof cases
    case hd
    with "2.prems"(2) have "DecodeRune (c # cs) = (byte c, 1)"
      by (intro DecodeRune_small) simp
    with hd show ?thesis by simp
  next
    case tl
    then show ?thesis using "2.IH" "2.prems"(2) by simp
  qed
qed

lemma DecodeRune_width:
  "1 \<le> snd (DecodeRune (c # cs)) \<and> snd (DecodeRune (c # cs)) \<le> length (c # cs)"
  by (simp add: DecodeRune.simps split: list.splits)

lemma unchunk_Cons: "unchunk (x # xs) = snd x @ unchunk xs"
  by (simp add: unchunk_def)

lemma unchunk_runes: "unchunk (runes s) = s"
proof (induction s rule: runes.induct)
  case 1
  then show ?case by (simp add: unchunk_def runes.simps)
next
  case (2 c cs)
  define w where "w = snd (DecodeRune (c # cs))"
  have w: "1 \<le> w" "w \<le> Suc (length cs)"
    using DecodeRune_width [of c cs] by (simp_all add: w_def)
  then obtain k where k: "w = Suc k" by (cases w) auto
  have "unchunk (runes (c # cs)) = take w (c # cs) @ unchunk (runes (drop (w - 1) cs))"
    by (simp add: unchunk_Cons w_def runes.simps)
  also have "\<dots> = take w (c # cs) @ drop (w - 1) cs"
    using 2 by (simp add: w_def)
  also have "\<dots> = c # cs"
    by (simp add: k)
  finally show ?case .
qed

section \<open>The matcher\<close>

lemma try_from_top: "f (lo + d) = Some r \<Longrightarrow> try_from f lo d = Some r"
  by (cases d) simp_all

lemma match_here_One:
  "match_here [One p] False (x # xs) = (if p (fst x) then Some [[x]] else None)"
  by simp

lemma match_here_Rep:
  "match_here [Rep p lo] False rs =
     (if length (takeWhile (\<lambda>x. p (fst x)) rs) < lo then None
      else Some [take (length (takeWhile (\<lambda>x. p (fst x)) rs)) rs])"
  by (simp add: try_from_top)

lemma replace_One_map:
  "replace_chunks [One p] repl xs = concat (map (\<lambda>x. if p (fst x) then repl else snd x) xs)"
  by (induction xs) simp_all

lemma replace_Rep_none:
  "list_all (\<lambda>x. \<not> p (fst x)) xs \<Longrightarrow> replace_chunks [Rep p (Suc lo)] repl xs = unchunk xs"
proof (induction xs)
  case Nil
  then show ?case by (simp add: unchunk_def)
next
  case (Cons x xs)
  then have "match_here [Rep p (Suc lo)] False (x # xs) = None"
    by (simp only: match_here_Rep) simp
  with Cons show ?case by (simp add: unchunk_Cons del: match_here.simps)
qed

lemma replace_Rep_all:
  assumes "xs \<noteq> []" and "list_all (\<lambda>x. p (fst x)) xs"
  shows "replace_chunks [Rep p (Suc 0)] repl xs = repl"
proof -
  from assms(1) obtain y ys where xs: "xs = y # ys" by (cases xs) auto
  have tw: "takeWhile (\<lambda>x. p (fst x)) xs = xs"
    using assms(2) by (simp add: list_all_iff)
  have "match_here [Rep p (Suc 0)] False xs = Some [xs]"
    by (simp only: match_here_Rep tw) (simp add: xs)
  then show ?thesis
    by (simp add: xs del: match_here.simps)
qed


section \<open>Audio capture\<close>








section \<open>A record command without audio\<close>

lemma command_s: "TrimSpace (ToLower ut ''s'') = ''s''"
  by (simp add: string_eval)

lemma processVoiceCommand_no_success:
  assumes "capture w tr d = (path, False, None)"
  shows "processVoiceCommand w v tr d =
    (Normal None, v\<lparr>recorder := (recorder v)\<lparr>AudioFilePath := path\<rparr>\<rparr>, tr @ [Captured d])"
  using assms by (simp add: processVoiceCommand_def)

text \<open>
  C4. When the capture of a record command (a line that is normalised to \<open>r\<close>, 7 seconds,
  or to \<open>l\<close>, 12 seconds) comes back with \<open>ok = false\<close> and a nil error, the handler
  returns nil, the only call made is the capture itself (no transcription, inference or
  synthesis), and the loop goes on with the next event.
\<close>

theorem record_command_without_audio:
  assumes "capture w tr d = (path, False, None)"
    and "(TrimSpace (ToLower ut line) = ''r'' \<and> d = 7) \<or>
         (TrimSpace (ToLower ut line) = ''l'' \<and> d = 12)"
  shows "processVoiceCommand w v tr d =
           (Normal None, v\<lparr>recorder := (recorder v)\<lparr>AudioFilePath := path\<rparr>\<rparr>,
            tr @ [Captured d]) \<and>
         Run w ut ctxErr v tr (Read (Line line) # events) =
           Run w ut ctxErr (v\<lparr>recorder := (recorder v)\<lparr>AudioFilePath := path\<rparr>\<rparr>)
             (tr @ [Captured d]) events"
proof -
  have p: "processVoiceCommand w v tr d =
      (Normal None, v\<lparr>recorder := (recorder v)\<lparr>AudioFilePath := path\<rparr>\<rparr>, tr @ [Captured d])"
    by (rule processVoiceCommand_no_success [OF assms(1)])
  from assms(2) show ?thesis
  proof
    assume "TrimSpace (ToLower ut line) = ''r'' \<and> d = 7"
    with p show ?thesis by simp
  next
    assume "TrimSpace (ToLower ut line) = ''l'' \<and> d = 12"
    with p show ?thesis by simp
  qed
qed

theorem record_command_without_audio_witness:
  "capture silent_world [] 7 = (sample_path, False, None) \<and>
   TrimSpace (ToLower latin1_lower '' R '') = ''r'' \<and>
   Run silent_world latin1_lower (Errorf ''context canceled'') sample_session []
       (Read (Line '' R '') # [Read (Line ''q'')]) =
     (Returned None,
      sample_session\<lparr>recorder := (recorder sample_session)\<lparr>AudioFilePath := sample_path\<rparr>\<rparr>,
      [Captured 7])"
proof -
  have h: "capture silent_world [] 7 = (sample_path, False, None)"
    by (simp add: silent_world_def)
  have c: "TrimSpace (ToLower latin1_lower '' R '') = ''r''"
    by (simp add: string_eval)
  have q: "TrimSpace (ToLower latin1_lower ''q'') = ''q''"
    by (simp add: string_eval)
  have "Run silent_world latin1_lower (Errorf ''context canceled'') sample_session []
       (Read (Line '' R '') # [Read (Line ''q'')]) =
     Run silent_world latin1_lower (Errorf ''context canceled'')
       (sample_session\<lparr>recorder := (recorder sample_session)\<lparr>AudioFilePath := sample_path\<rparr>\<rparr>)
       ([] @ [Captured 7]) [Read (Line ''q'')]"
    using record_command_without_audio
      [of silent_world "[]" 7 sample_path latin1_lower "'' R ''" sample_session
          "Errorf ''context canceled''" "[Read (Line ''q'')]"] h c
    by blast
  also have "\<dots> = (Returned None,
      sample_session\<lparr>recorder := (recorder sample_session)\<lparr>AudioFilePath := sample_path\<rparr>\<rparr>,
      [Captured 7])"
    by (simp add: q)
  finally show ?thesis using h c by blast
qed

section \<open>The toggle of speech\<close>

text \<open>
  C10. The arm of the \<open>s\<close> command is an involution on the session: two \<open>s\<close> lines in
  a row leave the loop where it was, and one \<open>s\<close> line negates the TTS-enabled flag and
  changes nothing else: no call is made, the other fields of the TTS configuration, the
  other parts of the configuration and the adapters stay as they are.
\<close>

theorem toggle_speech_involution:
  "Run w ut ctxErr v tr (Read (Line ''s'') # Read (Line ''s'') # events) =
     Run w ut ctxErr v tr events \<and>
   Run w ut ctxErr v tr (Read (Line ''s'') # events) =
     Run w ut ctxErr (toggleSpeech v) tr events \<and>
   toggleSpeech (toggleSpeech v) = v \<and>
   Enabled (TTS (config (toggleSpeech v))) = (\<not> Enabled (TTS (config v))) \<and>
   Rate (TTS (config (toggleSpeech v))) = Rate (TTS (config v)) \<and>
   Volume (TTS (config (toggleSpeech v))) = Volume (TTS (config v)) \<and>
   VoiceID (TTS (config (toggleSpeech v))) = VoiceID (TTS (config v)) \<and>
   VertexAI (config (toggleSpeech v)) = VertexAI (config v) \<and>
   Voice (config (toggleSpeech v)) = Voice (config v) \<and>
   claudeClient (toggleSpeech v) = claudeClient v \<and>
   recorder (toggleSpeech v) = recorder v \<and>
   transcriber (toggleSpeech v) = transcriber v \<and>
   tts (toggleSpeech v) = tts v"
  by (simp add: command_s toggleSpeech_def)

section \<open>Formatting the search results\<close>

lemma formatLoop_take:
  "formatLoop i rs =
     map (\<lambda>(k, r). code_snippet_format (k + 1) r) (enumerate i (take (3 - i) rs))"
proof (induction rs arbitrary: i)
  case Nil
  then show ?case by simp
next
  case (Cons r rs)
  show ?case
  proof (cases "i \<ge> 3")
    case True
    then show ?thesis by simp
  next
    case False
    then have "3 - i = Suc (3 - (i + 1))" by simp
    with False Cons [of "i + 1"] show ?thesis
      by (simp add: code_snippet_format_def)
  qed
qed

lemma code_format_is_spec_format:
  "Title r \<noteq> '''' \<Longrightarrow> Source r \<noteq> '''' \<Longrightarrow> Snippet r \<noteq> ''''
    \<Longrightarrow> code_snippet_format index r = spec_snippet_format index r"
  by (simp add: code_snippet_format_def spec_snippet_format_def)

text \<open>
  C5, as the code has it. For a non-empty list of results (the only lists that reach the
  second request), the formatted context is the first three results at most, numbered
  from 1, each written as "<index>. <title> (<source>)\<newline>   <body>" where an empty
  title, source or body is replaced by "No title", "Unknown source" or "No description",
  and joined by an empty line. A result without empty fields is written exactly in the
  format of the specification.
\<close>

theorem formatSearchResults_first_three:
  "(Results sr \<noteq> [] \<longrightarrow>
      formatSearchResults sr =
        Join (map (\<lambda>(k, r). code_snippet_format (k + 1) r) (enumerate 0 (take 3 (Results sr))))
          [CHR 0x0A, CHR 0x0A]) \<and>
   length (formatLoop 0 (Results sr)) = min 3 (length (Results sr)) \<and>
   (Title r \<noteq> '''' \<and> Source r \<noteq> '''' \<and> Snippet r \<noteq> ''''
      \<longrightarrow> code_snippet_format index r = spec_snippet_format index r)"
  by (simp add: formatSearchResults_def formatLoop_take code_format_is_spec_format)

lemma Itoa_small: "n < 10 \<Longrightarrow> Itoa n = [char_of (0x30 + n)]"
  by (simp add: Itoa.simps)

lemma Itoa_digits:
  "Itoa (Suc 0) = ''1''" "Itoa (Suc (Suc 0)) = ''2''" "Itoa (Suc (Suc (Suc 0))) = ''3''"
  by (simp_all add: Itoa_small string_eval)

theorem formatSearchResults_first_three_witness:
  "Results four_results \<noteq> [] \<and>
   formatSearchResults four_results =
     ''1. A (x)'' @ [CHR 0x0A] @ ''   a'' @ [CHR 0x0A, CHR 0x0A] @
     ''2. B (y)'' @ [CHR 0x0A] @ ''   b'' @ [CHR 0x0A, CHR 0x0A] @
     ''3. C (z)'' @ [CHR 0x0A] @ ''   c''"
proof -
  have h: "Results four_results \<noteq> []" by (simp add: four_results_def)
  have "formatSearchResults four_results =
      Join (map (\<lambda>(k, r). code_snippet_format (k + 1) r)
        (enumerate 0 (take 3 (Results four_results)))) [CHR 0x0A, CHR 0x0A]"
    using formatSearchResults_first_three [of four_results, THEN conjunct1] h by blast
  also have "\<dots> = ''1. A (x)'' @ [CHR 0x0A] @ ''   a'' @ [CHR 0x0A, CHR 0x0A] @
     ''2. B (y)'' @ [CHR 0x0A] @ ''   b'' @ [CHR 0x0A, CHR 0x0A] @
     ''3. C (z)'' @ [CHR 0x0A] @ ''   c''"
    by (simp add: four_results_def code_snippet_format_def Itoa_digits)
  finally show ?thesis using h by blast
qed

text \<open>
  C5 as stated fails: a result with an empty title is not written in the stated format,
  the title is replaced by "No title".
\<close>

theorem formatSearchResults_empty_title_counterexample:
  "formatSearchResults \<lparr>Results = [\<lparr>Title = '''', Snippet = ''b'', Source = ''s''\<rparr>], Error = ''''\<rparr>
     = ''1. No title (s)'' @ [CHR 0x0A] @ ''   b'' \<and>
   spec_snippet_format 1 \<lparr>Title = '''', Snippet = ''b'', Source = ''s''\<rparr>
     = ''1.  (s)'' @ [CHR 0x0A] @ ''   b'' \<and>
   formatSearchResults \<lparr>Results = [\<lparr>Title = '''', Snippet = ''b'', Source = ''s''\<rparr>], Error = ''''\<rparr>
     \<noteq> spec_snippet_format 1 \<lparr>Title = '''', Snippet = ''b'', Source = ''s''\<rparr>"
  by (simp add: formatSearchResults_def spec_snippet_format_def Itoa_digits)

section \<open>The extracted query\<close>

lemma firstLocation_nonempty: "firstLocation ps m = Some q \<Longrightarrow> q \<noteq> ''''"
  by (induction ps) (auto split: option.splits if_splits)

lemma extractSearchQuery_nonempty_aux:
  "extractSearchQuery ut userMessage claudeResponse = query \<Longrightarrow> query \<noteq> ''''"
proof (cases "firstLocation locationPatterns userMessage")
  case None
  assume "extractSearchQuery ut userMessage claudeResponse = query"
  with None show ?thesis by (auto simp: extractSearchQuery_def Let_def split: if_splits)
next
  case (Some q)
  assume "extractSearchQuery ut userMessage claudeResponse = query"
  with Some firstLocation_nonempty [OF Some] show ?thesis
    by (auto simp: extractSearchQuery_def Let_def split: if_splits)
qed

text \<open>
  C9. The query extracted from any user message and any reply is not empty: each branch
  returns a literal or a literal followed by text. So the test \<open>searchQuery != ""\<close> in
  \<open>SendMessage\<close> always succeeds: whatever stands in its two branches, the conditional is
  its first branch, and the branch that skips the search for an empty query is never
  taken.
\<close>

theorem extractSearchQuery_nonempty:
  "extractSearchQuery ut userMessage claudeResponse \<noteq> '''' \<and>
   (if extractSearchQuery ut userMessage claudeResponse \<noteq> '''' then proceed else skip) = proceed"
  using extractSearchQuery_nonempty_aux [OF refl, of ut userMessage claudeResponse] by simp

section \<open>Sanitising text for speech\<close>

lemma speech_allowed_listed: "speech_allowed r = (listed_allow_list r \<or> re_space r)"
  by (auto simp: speech_allowed_def listed_allow_list_def)

lemma ReplaceAllString_unanchored:
  "ReplaceAllString (Regexp False ats False []) src repl = replace_chunks ats repl (runes src)"
  by (simp add: ReplaceAllString.simps)

lemma ReplaceAllString_empty:
  "ReplaceAllString (Regexp False ats False []) '''' repl = ''''"
  by (simp add: ReplaceAllString_unanchored)

lemma blank_chunk:
  assumes "x \<in> set (runes text)"
    and "\<not> listed_allow_list (fst x) \<and> fst x \<noteq> 0x0A"
  shows "list_all (\<lambda>c. byte c \<in> {0x09, 0x0C, 0x0D, 0x20})
    (if \<not> speech_allowed (fst x) then '' '' else snd x)"
proof (cases "speech_allowed (fst x)")
  case False
  then show ?thesis by (simp add: byte_def)
next
  case True
  with assms(2) have r: "fst x \<in> {0x09, 0x0C, 0x0D, 0x20}"
    by (auto simp: speech_allowed_listed re_space_def)
  then have "fst x < 0x80" by auto
  from runes_small_chunk [OF assms(1) this] obtain c where "x = (byte c, [c])" ..
  with r True show ?thesis by simp
qed

lemma emojiRegex_blanks:
  assumes "list_all (\<lambda>x. \<not> listed_allow_list (fst x) \<and> fst x \<noteq> 0x0A) (runes text)"
  shows "list_all (\<lambda>c. byte c \<in> {0x09, 0x0C, 0x0D, 0x20}) (ReplaceAllString emojiRegex text '' '')"
proof -
  have "ReplaceAllString emojiRegex text '' '' =
      concat (map (\<lambda>x. if \<not> speech_allowed (fst x) then '' '' else snd x) (runes text))"
    by (simp only: emojiRegex_def ReplaceAllString_unanchored replace_One_map)
  moreover have "\<forall>x \<in> set (runes text).
      list_all (\<lambda>c. byte c \<in> {0x09, 0x0C, 0x0D, 0x20})
        (if \<not> speech_allowed (fst x) then '' '' else snd x)"
    using assms blank_chunk by (simp only: list_all_iff) blast
  ultimately show ?thesis
    by (simp only: list_all_iff set_concat set_map) blast
qed

lemma blanks_runes:
  assumes "list_all (\<lambda>c. byte c \<in> {0x09, 0x0C, 0x0D, 0x20}) s"
  shows "runes s = map (\<lambda>c. (byte c, [c])) s"
proof -
  have "list_all (\<lambda>c. byte c < 0x80) s"
    using assms by (auto simp: list_all_iff)
  then show ?thesis by (rule runes_ascii)
qed

lemma blanks_keep:
  assumes "list_all (\<lambda>c. byte c \<in> {0x09, 0x0C, 0x0D, 0x20}) s"
    and "\<not> p 0x09" and "\<not> p 0x0C" and "\<not> p 0x0D" and "\<not> p 0x20"
  shows "ReplaceAllString (Regexp False [Rep p (Suc lo)] False []) s repl = s"
proof -
  have "list_all (\<lambda>x. \<not> p (fst x)) (runes s)"
    using assms by (auto simp: blanks_runes list_all_iff)
  then have "replace_chunks [Rep p (Suc lo)] repl (runes s) = unchunk (runes s)"
    by (rule replace_Rep_none)
  then show ?thesis
    by (simp only: ReplaceAllString_unanchored unchunk_runes)
qed

lemma blanks_collapse:
  assumes "list_all (\<lambda>c. byte c \<in> {0x09, 0x0C, 0x0D, 0x20}) s" and "s \<noteq> []"
  shows "ReplaceAllString (Regexp False [Rep re_space (Suc 0)] False []) s '' '' = '' ''"
proof -
  have "list_all (\<lambda>x. re_space (fst x)) (runes s)"
    using assms(1) by (auto simp: blanks_runes list_all_iff re_space_def)
  moreover have "runes s \<noteq> []"
    using assms by (simp add: blanks_runes)
  ultimately have "replace_chunks [Rep re_space (Suc 0)] '' '' (runes s) = '' ''"
    by (intro replace_Rep_all)
  then show ?thesis
    by (simp only: ReplaceAllString_unanchored)
qed

lemma removePatterns_blanks:
  assumes "list_all (\<lambda>c. byte c \<in> {0x09, 0x0C, 0x0D, 0x20}) s"
  shows "removePatterns markdownPatterns s = s"
  using assms by (simp add: markdownPatterns_def blanks_keep lit_def byte_def)

lemma TrimSpace_empty: "TrimSpace '''' = ''''"
  by (simp add: TrimSpace_def TrimLeftSpace_def TrimRightSpace_def unchunk_def runes.simps)

lemma TrimSpace_space: "TrimSpace '' '' = ''''"
  by (simp add: TrimSpace_def TrimLeftSpace_def TrimRightSpace_def unchunk_def IsSpace_def
      byte_def DecodeRune.simps runes.simps)

lemma cleanTextForSpeech_disallowed:
  assumes "list_all (\<lambda>x. \<not> listed_allow_list (fst x) \<and> fst x \<noteq> 0x0A) (runes text)"
  shows "cleanTextForSpeech text = ''''"
proof -
  define s where "s = ReplaceAllString emojiRegex text '' ''"
  have b: "list_all (\<lambda>c. byte c \<in> {0x09, 0x0C, 0x0D, 0x20}) s"
    unfolding s_def by (rule emojiRegex_blanks [OF assms])
  have s2: "removePatterns markdownPatterns s = s"
    by (rule removePatterns_blanks [OF b])
  have s3: "ReplaceAllString (Regexp False [Rep (lit CHR 0x0A) 1] False []) s ''. '' = s"
    using blanks_keep [OF b, of "lit CHR 0x0A" 0 "''. ''"] by (simp add: lit_def byte_def)
  show ?thesis
  proof (cases "s = []")
    case True
    then show ?thesis
      by (simp add: cleanTextForSpeech_def s_def [symmetric] markdownPatterns_def
          ReplaceAllString_empty TrimSpace_empty)
  next
    case False
    have s4: "ReplaceAllString (Regexp False [Rep re_space 1] False []) s '' '' = '' ''"
      using blanks_collapse [OF b False] by simp
    have s5: "ReplaceAllString (Regexp False [Rep (lit CHR ''.'') 2] False []) '' '' ''.'' = '' ''"
      using blanks_keep [of "'' ''" "lit CHR ''.''" 1 "''.''"]
      by (simp add: lit_def byte_def numeral_2_eq_2)
    show ?thesis
      by (simp only: cleanTextForSpeech_def s_def [symmetric] s2 s3 s4 s5 TrimSpace_space)
  qed
qed

text \<open>
  C7. If every rune of the text lies outside the listed allow-list (word characters, common
  punctuation, accented Latin letters) and none is a line feed, then the cleaned text is
  empty and \<open>Speak\<close> returns nil without running the backend command. A byte that is no
  valid UTF-8 counts as U+FFFD, which is outside the list. The spaces, tabs, form feeds and
  carriage returns of such a text are kept by \<open>emojiRegex\<close>, whose class allows \<^verbatim>\<open>\s\<close>,
  and are collapsed and trimmed afterwards.
\<close>

theorem Speak_disallowed_text:
  assumes "list_all (\<lambda>x. \<not> listed_allow_list (fst x) \<and> fst x \<noteq> 0x0A) (runes text)"
  shows "cleanTextForSpeech text = '''' \<and> Speak run s text = (None, [])"
  using cleanTextForSpeech_disallowed [OF assms] by (simp add: Speak_def)

theorem Speak_disallowed_text_witness:
  "list_all (\<lambda>x. \<not> listed_allow_list (fst x) \<and> fst x \<noteq> 0x0A) (runes unspeakable) \<and>
   cleanTextForSpeech unspeakable = '''' \<and>
   Speak (\<lambda>c a. None) \<lparr>command = ''espeak-ng'', args = [''-v'', ''es'', ''-s'', ''160'']\<rparr>
     unspeakable = (None, [])"
proof -
  have h: "list_all (\<lambda>x. \<not> listed_allow_list (fst x) \<and> fst x \<noteq> 0x0A) (runes unspeakable)"
    by (simp add: unspeakable_def listed_allow_list_def re_word_def re_alpha_def string_eval)
  from Speak_disallowed_text [OF h] h show ?thesis by blast
qed

text \<open>
  The line feed is outside the listed allow-list, but the class of \<open>emojiRegex\<close> allows it
  as white space and the next step turns it into a period: the text of one line feed is
  cleaned to a period, and \<open>Speak\<close> runs the backend command with it.
\<close>

theorem line_feed_counterexample:
  "list_all (\<lambda>x. \<not> listed_allow_list (fst x)) (runes [CHR 0x0A]) \<and>
   cleanTextForSpeech [CHR 0x0A] = ''.'' \<and>
   Speak (\<lambda>c a. None) \<lparr>command = ''espeak-ng'', args = [''-v'', ''es'', ''-s'', ''160'']\<rparr>
     [CHR 0x0A] = (None, [(''espeak-ng'', [''-v'', ''es'', ''-s'', ''160'', ''.''])])"
proof -
  have r: "list_all (\<lambda>x. \<not> listed_allow_list (fst x)) (runes [CHR 0x0A])"
    by (simp add: listed_allow_list_def re_word_def re_alpha_def string_eval)
  have c: "cleanTextForSpeech [CHR 0x0A] = ''.''"
    by (simp add: cleanTextForSpeech_def markdownPatterns_def speech_allowed_def emojiRegex_def
        string_eval regexp_eval)
  show ?thesis
    by (simp add: r c Speak_def)
qed



section \<open>White space\<close>

lemma IsSpace_cases:
  assumes "IsSpace r"
  shows "r \<in> {0x09, 0x0A, 0x0B, 0x0C, 0x0D, 0x20, 0x85, 0xA0, 0x1680, 0x2000, 0x2001, 0x2002,
    0x2003, 0x2004, 0x2005, 0x2006, 0x2007, 0x2008, 0x2009, 0x200A, 0x2028, 0x2029, 0x202F,
    0x205F, 0x3000}"
proof -
  have a: "9 \<le> r \<and> r \<le> 13 \<Longrightarrow> r = 9 \<or> r = 10 \<or> r = 11 \<or> r = 12 \<or> r = 13" by arith
  have b: "8192 \<le> r \<and> r \<le> 8202 \<Longrightarrow> r = 8192 \<or> r = 8193 \<or> r = 8194 \<or> r = 8195 \<or>
      r = 8196 \<or> r = 8197 \<or> r = 8198 \<or> r = 8199 \<or> r = 8200 \<or> r = 8201 \<or> r = 8202" by arith
  from assms a b show ?thesis unfolding IsSpace_def by auto
qed

lemma runes_EncodeRune_space:
  assumes "IsSpace r"
  shows "runes (EncodeRune r @ s) = (r, EncodeRune r) # runes s"
  using IsSpace_cases [OF assms] by (elim insertE emptyE) (simp_all add: string_eval)

lemma runes_encoded_spaces:
  "list_all (\<lambda>x. IsSpace (fst x)) xs
    \<Longrightarrow> runes (concat (map (\<lambda>x. EncodeRune (fst x)) xs)) =
        map (\<lambda>x. (fst x, EncodeRune (fst x))) xs"
  by (induction xs) (simp_all add: runes_EncodeRune_space)

lemma unicode_ToLower_space:
  assumes "IsSpace r" and "\<forall>r. IsSpace r \<longrightarrow> ut r = r"
  shows "unicode_ToLower ut r = r"
  using assms IsSpace_cases [OF assms(1)] by (auto simp: unicode_ToLower_def)

lemma TrimSpace_all_space:
  assumes "list_all (\<lambda>x. IsSpace (fst x)) (runes s)"
  shows "TrimSpace s = ''''"
proof -
  have "dropWhile (\<lambda>x. IsSpace (fst x)) (runes s) = []"
    using assms by (simp add: list_all_iff)
  then have "TrimLeftSpace s = []"
    by (simp only: TrimLeftSpace_def unchunk_def) simp
  then show ?thesis
    by (simp add: TrimSpace_def TrimRightSpace_def)
qed

lemma lower_ascii_space: "IsSpace (byte c) \<Longrightarrow> lower_ascii c = c"
  by (auto simp: lower_ascii_def IsSpace_def)

lemma ToLower_keeps_spaces:
  assumes sp: "list_all (\<lambda>x. IsSpace (fst x)) (runes line)"
    and ut: "\<forall>r. IsSpace r \<longrightarrow> ut r = r"
  shows "list_all (\<lambda>x. IsSpace (fst x)) (runes (ToLower ut line))"
proof (cases "list_all (\<lambda>c. byte c < 0x80) line")
  case True
  with sp have "list_all (\<lambda>c. IsSpace (byte c)) line"
    by (simp add: runes_ascii list_all_iff)
  then have "map lower_ascii line = line"
    by (simp add: list_all_iff lower_ascii_space map_idI)
  with True sp show ?thesis by (simp add: ToLower_def)
next
  case False
  have "map (\<lambda>x. EncodeRune (unicode_ToLower ut (fst x))) (runes line) =
      map (\<lambda>x. EncodeRune (fst x)) (runes line)"
  proof (rule map_cong [OF refl])
    fix x assume "x \<in> set (runes line)"
    with sp have "IsSpace (fst x)" by (simp add: list_all_iff)
    then show "EncodeRune (unicode_ToLower ut (fst x)) = EncodeRune (fst x)"
      using ut by (simp add: unicode_ToLower_space)
  qed
  then have "strings_Map (unicode_ToLower ut) line =
      concat (map (\<lambda>x. EncodeRune (fst x)) (runes line))"
    by (simp only: strings_Map_def)
  then have "ToLower ut line = concat (map (\<lambda>x. EncodeRune (fst x)) (runes line))"
    using False by (simp add: ToLower_def)
  with sp show ?thesis
    by (simp add: runes_encoded_spaces list_all_iff)
qed

text \<open>
  C8. A line whose runes are all white space (as \<^verbatim>\<open>unicode.IsSpace\<close> has it) is
  normalised to the empty command, and the loop goes on to the next event with the same
  session and without any call or warning: the \<open>""\<close> arm, not a handler and not the
  \<open>default\<close> arm. Lower-casing must leave white space alone, which is the one property of
  the Unicode case table that is used.
\<close>

theorem whitespace_line_is_ignored:
  assumes "list_all (\<lambda>x. IsSpace (fst x)) (runes line)"
    and "\<forall>r. IsSpace r \<longrightarrow> ut r = r"
  shows "TrimSpace (ToLower ut line) = '''' \<and>
         Run w ut ctxErr v tr (Read (Line line) # events) = Run w ut ctxErr v tr events"
proof -
  have "TrimSpace (ToLower ut line) = ''''"
    by (rule TrimSpace_all_space [OF ToLower_keeps_spaces [OF assms]])
  then show ?thesis by simp
qed

theorem whitespace_line_is_ignored_witness:
  "list_all (\<lambda>x. IsSpace (fst x)) (runes blank_line) \<and>
   TrimSpace (ToLower latin1_lower blank_line) = '''' \<and>
   Run silent_world latin1_lower (Errorf ''context canceled'') sample_session []
     (Read (Line blank_line) # [Read (Line ''q'')]) =
   Run silent_world latin1_lower (Errorf ''context canceled'') sample_session []
     [Read (Line ''q'')]"
proof -
  have h: "list_all (\<lambda>x. IsSpace (fst x)) (runes blank_line)"
    by (simp add: blank_line_def string_eval)
  have u: "\<forall>r. IsSpace r \<longrightarrow> latin1_lower r = r"
    by (auto simp: IsSpace_def latin1_lower_def)
  from whitespace_line_is_ignored [OF h u] h show ?thesis by blast
qed

section \<open>Parsing the transcription output\<close>

lemma try_from_exists:
  "lo \<le> k \<Longrightarrow> k \<le> lo + d \<Longrightarrow> f k \<noteq> None \<Longrightarrow> try_from f lo d \<noteq> None"
proof (induction d)
  case 0
  then show ?case by simp
next
  case (Suc d)
  show ?case
  proof (cases "k = lo + Suc d")
    case True
    with Suc.prems show ?thesis by auto
  next
    case False
    with Suc.prems have "k \<le> lo + d" by simp
    with Suc show ?thesis by (auto split: option.splits)
  qed
qed

lemma match_here_Rep_choice:
  assumes "lo \<le> k" and "k \<le> length (takeWhile (\<lambda>x. p (fst x)) rs)"
    and "match_here ats eot (drop k rs) \<noteq> None"
  shows "match_here (Rep p lo # ats) eot rs \<noteq> None"
proof -
  let ?n = "length (takeWhile (\<lambda>x. p (fst x)) rs)"
  let ?f = "\<lambda>k. map_option (Cons (take k rs)) (match_here ats eot (drop k rs))"
  have fk: "?f k \<noteq> None" using assms(3) by simp
  have le: "k \<le> lo + (?n - lo)" using assms(1,2) by simp
  have "try_from ?f lo (?n - lo) \<noteq> None"
    using assms(1) le fk by (rule try_from_exists [where f = ?f and k = k])
  moreover have "\<not> ?n < lo" using assms(1,2) by simp
  ultimately show ?thesis by simp
qed

lemma match_here_One_step:
  assumes "p (fst x)" and "match_here ats eot xs \<noteq> None"
  shows "match_here (One p # ats) eot (x # xs) \<noteq> None"
  using assms by simp

lemma takeWhile_prefix_length:
  "list_all P xs \<Longrightarrow> length xs \<le> length (takeWhile P (xs @ ys))"
  by (induction xs) simp_all

section \<open>ASCII text\<close>

lemma runes_ascii_append:
  "list_all (\<lambda>c. byte c < 0x80) s \<Longrightarrow> runes (s @ t) = map (\<lambda>c. (byte c, [c])) s @ runes t"
  by (induction s) (simp_all add: runes_ascii_Cons)

lemma timestamp_shape_matches:
  assumes a: "list_all (\<lambda>c. byte c < 0x80 \<and> byte c \<noteq> 0x0A) a"
    and b: "list_all (\<lambda>c. byte c < 0x80 \<and> byte c \<noteq> 0x0A) b"
  shows "isTimestampLine (timestamp_range a b)"
proof -
  let ?asc = "\<lambda>c. (byte c, [c])"
  let ?A = "map ?asc a" and ?B = "map ?asc b"
  have aa: "list_all (\<lambda>c. byte c < 0x80) a" and ab: "list_all (\<lambda>c. byte c < 0x80) b"
    using a b by (simp_all add: list_all_iff)
  have dotA: "list_all (\<lambda>x. re_dot (fst x)) ?A" and dotB: "list_all (\<lambda>x. re_dot (fst x)) ?B"
    using a b by (simp_all add: list_all_iff re_dot_def)
  let ?r4 = "[(0x5D, '']'')] :: chunk list"
  let ?r3 = "(0x20, '' '') # ?B @ ?r4"
  let ?r2 = "(0x2D, ''-'') # (0x2D, ''-'') # (0x3E, ''>'') # ?r3"
  let ?r1 = "?A @ (0x20, '' '') # ?r2"
  have lits: "byte CHR ''['' = 0x5B" "byte CHR '']'' = 0x5D" "byte CHR '' '' = 0x20"
    "byte CHR ''-'' = 0x2D" "byte CHR ''>'' = 0x3E"
    by (simp_all add: byte_def)
  have rs: "runes (timestamp_range a b) = (0x5B, ''['') # ?r1"
    by (simp add: timestamp_range_def runes_ascii_Cons runes_ascii_append aa ab lits)
  have m4: "match_here [One (lit CHR '']''), Rep re_space 0] True ?r4 \<noteq> None"
    by (simp add: lit_def lits)
  have "list_all (\<lambda>x. re_dot (fst x)) ((0x20, '' '') # ?B)"
    using dotB by (simp add: re_dot_def)
  then have "length ((0x20, '' '') # ?B) \<le> length (takeWhile (\<lambda>x. re_dot (fst x)) (((0x20, '' '') # ?B) @ ?r4))"
    by (rule takeWhile_prefix_length)
  then have k3: "Suc (length b) \<le> length (takeWhile (\<lambda>x. re_dot (fst x)) ?r3)"
    by simp
  have m3: "match_here [Rep re_dot 0, One (lit CHR '']''), Rep re_space 0] True ?r3 \<noteq> None"
    by (rule match_here_Rep_choice [where k = "Suc (length b)"]) (use k3 m4 in simp_all)
  have m3': "match_here [Rep re_space 0, Rep re_dot 0, One (lit CHR '']''), Rep re_space 0] True ?r3
      \<noteq> None"
    by (rule match_here_Rep_choice [where k = 0]) (use m3 in simp_all)
  have m2: "match_here [One (lit CHR ''-''), One (lit CHR ''-''), One (lit CHR ''>''),
      Rep re_space 0, Rep re_dot 0, One (lit CHR '']''), Rep re_space 0] True ?r2 \<noteq> None"
    by (intro match_here_One_step m3') (simp_all add: lit_def lits)
  have "list_all (\<lambda>x. re_dot (fst x)) (?A @ [(0x20, '' '')])"
    using dotA by (simp add: re_dot_def)
  then have "length (?A @ [(0x20, '' '')]) \<le>
      length (takeWhile (\<lambda>x. re_dot (fst x)) ((?A @ [(0x20, '' '')]) @ ?r2))"
    by (rule takeWhile_prefix_length)
  then have k1: "Suc (length a) \<le> length (takeWhile (\<lambda>x. re_dot (fst x)) ?r1)"
    by simp
  have m1: "match_here [Rep re_dot 0, One (lit CHR ''-''), One (lit CHR ''-''), One (lit CHR ''>''),
      Rep re_space 0, Rep re_dot 0, One (lit CHR '']''), Rep re_space 0] True ?r1 \<noteq> None"
    by (rule match_here_Rep_choice [where k = "Suc (length a)"]) (use k1 m2 in simp_all)
  have m0: "match_here [One (lit CHR ''[''), Rep re_dot 0, One (lit CHR ''-''), One (lit CHR ''-''),
      One (lit CHR ''>''), Rep re_space 0, Rep re_dot 0, One (lit CHR '']''), Rep re_space 0] True
      ((0x5B, ''['') # ?r1) \<noteq> None"
    by (intro match_here_One_step m1) (simp add: lit_def lits)
  have "match_here [Rep re_space 0, One (lit CHR ''[''), Rep re_dot 0, One (lit CHR ''-''),
      One (lit CHR ''-''), One (lit CHR ''>''), Rep re_space 0, Rep re_dot 0, One (lit CHR '']''),
      Rep re_space 0] True ((0x5B, ''['') # ?r1) \<noteq> None"
    by (rule match_here_Rep_choice [where k = 0]) (use m0 in simp_all)
  then show ?thesis
    by (simp only: isTimestampLine_def MatchString_def timestampPattern_def
        FindStringSubmatch.simps rs) simp
qed

lemma is_clock_plain:
  assumes "is_clock t"
  shows "list_all (\<lambda>c. byte c < 0x80 \<and> byte c \<noteq> 0x0A) t"
proof -
  have "list_all2 (\<lambda>c shape. if shape = CHR ''0'' then is_digit c else c = shape) t u
      \<Longrightarrow> list_all (\<lambda>shape. shape = CHR ''0'' \<or> shape = CHR '':'' \<or> shape = CHR ''.'') u
      \<Longrightarrow> list_all (\<lambda>c. byte c < 0x80 \<and> byte c \<noteq> 0x0A) t" for u
    by (induction rule: list_all2_induct) (auto simp: is_digit_def byte_def split: if_splits)
  from this [OF assms [unfolded is_clock_def]] show ?thesis by simp
qed

lemma TrimLeftSpace_keep:
  assumes "byte c < 0x80" and "\<not> IsSpace (byte c)"
  shows "TrimLeftSpace (c # cs) = c # cs"
proof -
  have "unchunk ((byte c, [c]) # runes cs) = c # cs"
    by (simp add: unchunk_Cons unchunk_runes)
  with assms show ?thesis
    by (simp add: TrimLeftSpace_def runes_ascii_Cons)
qed

lemma TrimRightSpace_keep:
  assumes "s \<noteq> []" and "byte (last s) < 0x80" and "\<not> IsSpace (byte (last s))"
  shows "TrimRightSpace s = s"
proof -
  from assms(1) obtain n where "length s = Suc n" by (cases s) auto
  with assms show ?thesis
    by (simp add: TrimRightSpace_def DecodeLastRune_def)
qed

lemma TrimSpace_timestamp_range: "TrimSpace (timestamp_range a b) = timestamp_range a b"
proof -
  have l: "TrimLeftSpace (timestamp_range a b) = timestamp_range a b"
    unfolding timestamp_range_def
    by (simp add: TrimLeftSpace_keep byte_def IsSpace_def)
  have r: "TrimRightSpace (timestamp_range a b) = timestamp_range a b"
    by (rule TrimRightSpace_keep) (simp_all add: timestamp_range_def byte_def IsSpace_def)
  show ?thesis by (simp add: TrimSpace_def l r)
qed

lemma textLines_no_timestamp: "l \<in> set (textLines ut ls) \<Longrightarrow> \<not> isTimestampLine l"
  by (induction ls) (auto split: if_splits)

lemma textLines_append: "textLines ut (xs @ ys) = textLines ut xs @ textLines ut ys"
  by (induction xs) simp_all

lemma textLines_skip:
  "isTimestampLine (TrimSpace l) \<Longrightarrow> textLines ut (xs @ l # ys) = textLines ut (xs @ ys)"
  by (simp add: textLines_append)

lemma whisper_sample_parsed: "parseWhisperOutput ut whisper_sample = ''Hello there''"
  by (simp add: parseWhisperOutput_def whisper_sample_def isTimestampLine_def isDebugLine_def
      timestampPattern_def debugPatterns_def string_eval regexp_eval)

lemma cleanTranscription_sample: "cleanTranscription ''Hello there'' = ''Hello there''"
  by (simp add: cleanTranscription_def spaceRegex_def string_eval regexp_eval)

text \<open>
  The fallback of \<open>Transcribe\<close> is outside the parser: when the output holds nothing to
  keep, the content of the \<^verbatim>\<open>.txt\<close> file is cleaned but not parsed.
\<close>

lemma fallback_is_not_parsed:
  "transcription_of ut '''' (Some ''[00:00:00.000 --> 00:00:02.000]'') =
     ''[00:00:00.000 --> 00:00:02.000]''"
  by (simp add: transcription_of_def cleanTranscription_def spaceRegex_def string_eval regexp_eval)

text \<open>
  C6. No line that \<open>parseWhisperOutput\<close> keeps matches the timestamp pattern, whatever
  the output; a line that matches once trimmed adds nothing to the kept lines, wherever it
  stands; every line of the form \<open>[hh:mm:ss.mmm --> hh:mm:ss.mmm]\<close> matches; and the
  sample output is parsed to "Hello there", which is also what \<open>Transcribe\<close> makes of it.
\<close>

theorem timestamp_lines_excluded:
  "(\<forall>l \<in> set (textLines ut (Split (TrimSpace output) (CHR 0x0A))). \<not> isTimestampLine l) \<and>
   (isTimestampLine (TrimSpace l)
      \<longrightarrow> textLines ut (before @ l # after) = textLines ut (before @ after)) \<and>
   (is_clock a \<and> is_clock b \<longrightarrow> isTimestampLine (TrimSpace (timestamp_range a b))) \<and>
   parseWhisperOutput ut whisper_sample = ''Hello there'' \<and>
   transcription_of ut whisper_sample txtFile = ''Hello there''"
proof (intro conjI ballI impI)
  fix l' assume "l' \<in> set (textLines ut (Split (TrimSpace output) (CHR 0x0A)))"
  then show "\<not> isTimestampLine l'" by (rule textLines_no_timestamp)
next
  assume "isTimestampLine (TrimSpace l)"
  then show "textLines ut (before @ l # after) = textLines ut (before @ after)"
    by (rule textLines_skip)
next
  assume "is_clock a \<and> is_clock b"
  then show "isTimestampLine (TrimSpace (timestamp_range a b))"
    by (simp add: TrimSpace_timestamp_range timestamp_shape_matches is_clock_plain)
next
  show "parseWhisperOutput ut whisper_sample = ''Hello there''"
    by (rule whisper_sample_parsed)
next
  have "whisper_sample \<noteq> []" by (simp add: whisper_sample_def)
  then show "transcription_of ut whisper_sample txtFile = ''Hello there''"
    by (simp add: transcription_of_def whisper_sample_parsed cleanTranscription_sample)
qed

theorem timestamp_lines_excluded_witness:
  "is_clock ''00:00:00.000'' \<and> is_clock ''00:00:02.000'' \<and>
   isTimestampLine (TrimSpace (timestamp_range ''00:00:00.000'' ''00:00:02.000'')) \<and>
   textLines latin1_lower ([] @ timestamp_range ''00:00:00.000'' ''00:00:02.000'' # [''Hello there''])
     = textLines latin1_lower ([] @ [''Hello there''])"
proof -
  have h: "is_clock ''00:00:00.000'' \<and> is_clock ''00:00:02.000''"
    by (simp add: is_clock_def is_digit_def byte_def)
  note T = timestamp_lines_excluded [of latin1_lower whisper_sample
      "timestamp_range ''00:00:00.000'' ''00:00:02.000''" "[]" "[''Hello there'']"
      "''00:00:00.000''" "''00:00:02.000''" None]
  from T h have m: "isTimestampLine (TrimSpace (timestamp_range ''00:00:00.000'' ''00:00:02.000''))"
    by blast
  with T have "textLines latin1_lower
      ([] @ timestamp_range ''00:00:00.000'' ''00:00:02.000'' # [''Hello there''])
     = textLines latin1_lower ([] @ [''Hello there''])"
    by blast
  with h m show ?thesis by blast
qed

section \<open>Text that contains a phrase\<close>

lemma not_inrange_ascii: "byte b < 0x80 \<Longrightarrow> 0x80 \<le> lo \<Longrightarrow> inrange lo hi b = False"
  by (simp add: inrange_def)

lemma DecodeRune_append:
  assumes "b = [] \<or> byte (hd b) < 0x80"
  shows "DecodeRune ((c # cs) @ b) = DecodeRune (c # cs)"
proof (cases b)
  case Nil
  then show ?thesis by simp
next
  case (Cons b0 bs)
  with assms have nb: "byte b0 < 0x80" by simp
  show ?thesis
  proof (cases cs)
    case Nil
    then show ?thesis
      using nb Cons by (simp add: DecodeRune.simps not_inrange_ascii split: list.splits)
  next
    case c1: (Cons c1 cs1)
    show ?thesis
    proof (cases cs1)
      case Nil
      then show ?thesis
        using nb Cons c1 by (simp add: DecodeRune.simps not_inrange_ascii split: list.splits)
    next
      case c2: (Cons c2 cs2)
      show ?thesis
      proof (cases cs2)
        case Nil
        then show ?thesis
          using nb Cons c1 c2 by (simp add: DecodeRune.simps not_inrange_ascii split: list.splits)
      next
        case (Cons c3 cs3)
        then show ?thesis using c1 c2 by (simp add: DecodeRune.simps)
      qed
    qed
  qed
qed

lemma runes_append:
  assumes "b = [] \<or> byte (hd b) < 0x80"
  shows "runes (a @ b) = runes a @ runes b"
proof (induction a rule: runes.induct)
  case 1
  then show ?case by simp
next
  case (2 c cs)
  define w where "w = snd (DecodeRune (c # cs))"
  have w: "1 \<le> w" "w \<le> Suc (length cs)"
    using DecodeRune_width [of c cs] by (simp_all add: w_def)
  have d: "DecodeRune (c # cs @ b) = DecodeRune (c # cs)"
    using DecodeRune_append [OF assms, of c cs] by simp
  have "runes ((c # cs) @ b) =
      (fst (DecodeRune (c # cs)), take w (c # cs @ b)) # runes (drop (w - 1) (cs @ b))"
    by (simp add: runes.simps d w_def)
  also have "take w (c # cs @ b) = take w (c # cs)"
    using w by (cases w) simp_all
  also have "drop (w - 1) (cs @ b) = drop (w - 1) cs @ b"
    using w by simp
  also have "runes (drop (w - 1) cs @ b) = runes (drop (w - 1) cs) @ runes b"
    using 2 by (simp add: w_def)
  finally show ?case
    by (simp add: runes.simps w_def)
qed

lemma HasPrefix_decomp: "HasPrefix s p \<Longrightarrow> \<exists>t. s = p @ t"
  by (induction s p rule: HasPrefix.induct) auto

lemma Contains_decomp: "Contains s p \<Longrightarrow> \<exists>a t. s = a @ p @ t"
proof (induction s)
  case Nil
  then show ?case by simp
next
  case (Cons c cs)
  from Cons.prems have "HasPrefix (c # cs) p \<or> Contains cs p" by simp
  then show ?case
  proof
    assume "HasPrefix (c # cs) p"
    then obtain t where "c # cs = p @ t" using HasPrefix_decomp by blast
    then have "c # cs = [] @ p @ t" by simp
    then show ?thesis by blast
  next
    assume "Contains cs p"
    with Cons.IH obtain a t where "cs = a @ p @ t" by blast
    then have "c # cs = (c # a) @ p @ t" by simp
    then show ?thesis by blast
  qed
qed

lemma leftmost_skip:
  "match_here ats eot ys \<noteq> None \<Longrightarrow> leftmost ats eot (xs @ ys) \<noteq> None"
proof (induction xs)
  case Nil
  then show ?case by (cases ys) (auto split: option.splits)
next
  case (Cons x xs)
  then show ?case by (auto split: option.splits)
qed

lemma fold_lit_self: "fold_lit c (byte c)"
  by (simp add: fold_lit_def)

lemma match_literal:
  "list_all (\<lambda>c. byte c < 0x80) p
    \<Longrightarrow> match_here (map (\<lambda>c. One (fold_lit c)) p) False (runes (p @ t)) \<noteq> None"
  by (induction p) (simp_all add: runes_ascii_Cons fold_lit_self)

lemma MatchString_literal:
  assumes "Contains s p" and "p \<noteq> []" and "list_all (\<lambda>c. byte c < 0x80) p"
  shows "MatchString (Compile_fold_literal p) s"
proof -
  from assms(1) obtain a t where s: "s = a @ p @ t" using Contains_decomp by blast
  from assms(2,3) have "p @ t = [] \<or> byte (hd (p @ t)) < 0x80" by (cases p) simp_all
  then have "runes s = runes a @ runes (p @ t)" unfolding s by (rule runes_append)
  moreover have "leftmost (map (\<lambda>c. One (fold_lit c)) p) False (runes a @ runes (p @ t)) \<noteq> None"
    by (rule leftmost_skip [OF match_literal [OF assms(3)]])
  ultimately show ?thesis
    by (simp add: MatchString_def Compile_fold_literal_def FindStringSubmatch.simps)
qed

section \<open>The decision to search\<close>

lemma no_access_phrase_ascii: "list_all (\<lambda>c. byte c < 0x80) no_access_phrase"
  by (simp add: no_access_phrase_def byte_def)

lemma needsWebSearch_phrase:
  assumes "Contains response no_access_phrase"
  shows "needsWebSearch ut (NewSmartClient cfg) response messages"
proof -
  have "MatchString (Compile_fold_literal no_access_phrase) response"
    by (rule MatchString_literal [OF assms _ no_access_phrase_ascii])
       (simp add: no_access_phrase_def)
  moreover have "triggerPatterns = no_access_phrase # tl triggerPatterns"
    by (simp add: triggerPatterns_def no_access_phrase_def)
  ultimately have "anyTrigger (map Compile_fold_literal triggerPatterns) response"
    by (metis anyTrigger.simps(2) list.simps(9))
  then show ?thesis
    by (simp add: needsWebSearch_def NewSmartClient_def)
qed



section \<open>One turn of the smart client\<close>

lemma SendMessage_with_panics:
  assumes "vertex [] messages = Inr reply" and "reply \<noteq> ''''"
    and "autoSearchEnabled s" and "needsWebSearch ut s reply messages"
    and "length reply < 100"
  shows "SendMessage_with search ut s vertex messages = (Panic, [messages])"
  using assms by (simp add: SendMessage_with_def)


text \<open>
  Where the reply has at least 100 bytes, every failure behind the first reply leaves the
  first reply as the result: a nil result of the search, no results, an error of the
  search, a failed second request or an empty second reply.
\<close>

lemma SendMessage_with_falls_back:
  assumes "vertex [] messages = Inr reply" and "100 \<le> length reply"
    and "extractSearchQuery ut (if messages \<noteq> [] then Content (last messages) else '''') reply
           = query"
    and "search query = None \<or>
         (\<exists>sr. search query = Some sr \<and>
            (Results sr = [] \<or> Error sr \<noteq> '''' \<or>
             (\<exists>err. vertex [messages] (enhancedMessages messages reply query sr) = Inl err) \<or>
             vertex [messages] (enhancedMessages messages reply query sr) = Inr ''''))"
  shows "fst (SendMessage_with search ut s vertex messages) = Normal (Inr reply)"
proof -
  from assms(2) have ne: "reply \<noteq> ''''" by auto
  from assms(2) have nl: "\<not> length reply < 100" by simp
  show ?thesis
    using assms(1,3,4) ne nl
    by (auto simp: SendMessage_with_def Let_def createEnhancedResponse_def
        split: option.splits sum.splits)
qed




lemma phrase_facts: "Contains no_access_phrase no_access_phrase \<and> length no_access_phrase = 42"
  by (simp add: no_access_phrase_def)



text \<open>
  C3 fails on the code. The first reply is the 42 bytes of the phrase, the search would
  return no results, and the second request would be answered: \<open>SendMessage\<close> neither
  returns the first reply nor an error, it panics on \<open>initialResponse[:100]\<close> before the
  query is extracted. The same holds with the search of the program.
\<close>

theorem SendMessage_short_reply_panics:
  "fst (SendMessage_with (\<lambda>query. Some \<lparr>Results = [], Error = ''''\<rparr>) latin1_lower
         (NewSmartClient (VertexAI sample_config))
         (\<lambda>sent request. if sent = [] then Inr no_access_phrase else Inr ''ok'')
         weather_question) = Panic \<and>
   fst (SendMessage_with (\<lambda>query. Some \<lparr>Results = [], Error = ''''\<rparr>) latin1_lower
         (NewSmartClient (VertexAI sample_config))
         (\<lambda>sent request. if sent = [] then Inr no_access_phrase else Inr ''ok'')
         weather_question) \<noteq> Normal (Inr no_access_phrase) \<and>
   fst (SendMessage latin1_lower (NewSmartClient (VertexAI sample_config))
         (\<lambda>sent request. if sent = [] then Inr no_access_phrase else Inr ''ok'')
         weather_question) = Panic"
proof -
  have on: "autoSearchEnabled (NewSmartClient (VertexAI sample_config))"
    by (simp add: NewSmartClient_def sample_config_def)
  have v: "(\<lambda>sent request. if sent = [] then Inr no_access_phrase else Inr ''ok'')
      [] weather_question = (Inr no_access_phrase :: error + string)"
    by simp
  have n: "needsWebSearch latin1_lower (NewSmartClient (VertexAI sample_config))
      no_access_phrase weather_question"
    by (rule needsWebSearch_phrase) (simp add: phrase_facts)
  have p: "SendMessage_with search latin1_lower (NewSmartClient (VertexAI sample_config))
      (\<lambda>sent request. if sent = [] then Inr no_access_phrase else Inr ''ok'')
      weather_question = (Panic, [weather_question])" for search
    by (rule SendMessage_with_panics
          [where vertex = "\<lambda>sent request. if sent = [] then Inr no_access_phrase else Inr ''ok''",
           OF v _ on n])
       (simp_all add: phrase_facts, simp add: no_access_phrase_def)
  show ?thesis by (simp add: p SendMessage_def)
qed

end
